theory Spec2Isabelle
  imports Main "HOL-Library.Word"
begin

section \<open>Values shared by the two source files\<close>

type_synonym byte = "8 word"
type_synonym bytes = "byte list"
type_synonym int64 = "64 word"

text \<open>
  Go's \<open>error\<close> values, as far as the sources build or compare them: the sentinel
  \<open>io.EOF\<close> (compared with \<open>==\<close>), \<open>pgpErrors.StructuralError\<close>, \<open>errors.New\<close>,
  \<open>errors.Wrap\<close>, and \<open>Foreign\<close> for any other error value handed back by a
  collaborator (the engine, a reader, a key ring). A nil error is \<open>None\<close>.
\<close>

datatype error =
    io_EOF
  | StructuralError string
  | errors_New string
  | errors_Wrap error string
  | Foreign string

section \<open>crypto/sessionkey.go: the session key and its algorithm table\<close>

type_synonym CipherFunction = "8 word"

text \<open>
  The cipher codes of the engine's \<open>packet\<close> package (the symmetric-key algorithm
  numbers of RFC 4880, section 9.2). The package is not part of the sources.
\<close>

definition Cipher3DES :: CipherFunction where "Cipher3DES = 2"
definition CipherCAST5 :: CipherFunction where "CipherCAST5 = 3"
definition CipherAES128 :: CipherFunction where "CipherAES128 = 7"
definition CipherAES192 :: CipherFunction where "CipherAES192 = 8"
definition CipherAES256 :: CipherFunction where "CipherAES256 = 9"

text \<open>
  Modelled from the spec: the \<open>constants\<close> package (the algorithm identifiers
  \<open>constants.ThreeDES\<close>, \<open>TripleDES\<close>, \<open>CAST5\<close>, \<open>AES128\<close>, \<open>AES192\<close>, \<open>AES256\<close>) is
  missing from the sources. Section 6 of the spec: "string constants for triple-DES
  (two aliases), CAST5, AES-128/192/256". They are six distinct non-empty strings (a Go
  map literal with two equal constant keys does not compile); nothing below depends on
  more than that.
\<close>

definition constants_ThreeDES :: string where "constants_ThreeDES = ''3des''"
definition constants_TripleDES :: string where "constants_TripleDES = ''tripledes''"
definition constants_CAST5 :: string where "constants_CAST5 = ''cast5''"
definition constants_AES128 :: string where "constants_AES128 = ''aes128''"
definition constants_AES192 :: string where "constants_AES192 = ''aes192''"
definition constants_AES256 :: string where "constants_AES256 = ''aes256''"

record SessionKey =
  V6 :: bool
  Key :: bytes
  Algo :: string

text \<open>The map literal \<open>symKeyAlgos\<close>, entry by entry, and the map it denotes.\<close>

definition symKeyAlgos_entries :: "(string \<times> CipherFunction) list" where
  "symKeyAlgos_entries =
     [(constants_ThreeDES, Cipher3DES),
      (constants_TripleDES, Cipher3DES),
      (constants_CAST5, CipherCAST5),
      (constants_AES128, CipherAES128),
      (constants_AES192, CipherAES192),
      (constants_AES256, CipherAES256)]"

definition symKeyAlgos :: "string \<rightharpoonup> CipherFunction" where
  "symKeyAlgos = map_of symKeyAlgos_entries"

text \<open>
  \<open>checkSize\<close>. \<open>cf.KeySize()\<close> is a method of the engine; it is the parameter
  \<open>KeySize\<close>. Go's \<open>len\<close> and \<open>KeySize\<close> are both \<open>int\<close>.
\<close>

definition checkSize :: "(CipherFunction \<Rightarrow> int) \<Rightarrow> SessionKey \<Rightarrow> error option" where
  "checkSize KeySize sk =
     (if V6 sk then
        (if length (Key sk) = 0 then Some (errors_New ''empty session key'') else None)
      else
        (case symKeyAlgos (Algo sk) of
           None \<Rightarrow> Some (errors_New ''unknown symmetric key algorithm'')
         | Some cf \<Rightarrow>
             if KeySize cf \<noteq> int (length (Key sk))
             then Some (errors_New ''wrong session key size'')
             else None))"

text \<open>
  The key sizes in bytes of the engine's \<open>CipherFunction.KeySize\<close> (3DES 24, CAST5 16,
  AES 16, 24, 32, anything else 0), to run \<open>checkSize\<close> on concrete keys.
\<close>

definition engine_KeySize :: "CipherFunction \<Rightarrow> int" where
  "engine_KeySize cf =
     (if cf = Cipher3DES then 24
      else if cf = CipherCAST5 then 16
      else if cf = CipherAES128 then 16
      else if cf = CipherAES192 then 24
      else if cf = CipherAES256 then 32
      else 0)"

text \<open>
  \<open>getAlgo\<close>. Go visits the entries of a map in an unspecified order, each entry once;
  the order of one run of the \<open>range\<close> loop is the parameter \<open>order\<close>, and
  \<open>range_order\<close> says that it enumerates \<open>symKeyAlgos\<close>. The loop keeps the default
  until an entry with the code is met, and stops there (\<open>break\<close>).
\<close>

definition range_order :: "(string \<times> CipherFunction) list \<Rightarrow> bool" where
  "range_order order \<longleftrightarrow> distinct order \<and> set order = set symKeyAlgos_entries"

fun range_loop :: "(string \<times> CipherFunction) list \<Rightarrow> CipherFunction \<Rightarrow> string \<Rightarrow> string" where
  "range_loop [] cipher algo = algo"
| "range_loop ((k, v) # rest) cipher algo =
     (if v = cipher then k else range_loop rest cipher algo)"

definition getAlgo :: "(string \<times> CipherFunction) list \<Rightarrow> CipherFunction \<Rightarrow> string" where
  "getAlgo order cipher =
     (if cipher = 0 then ''''
      else range_loop order cipher constants_AES256)"

subsection \<open>checkReader\<close>

text \<open>
  \<open>checkReader\<close> holds an \<open>io.ReadCloser\<close> and an \<open>io.Reader\<close>, of which it calls
  \<open>Close\<close> and \<open>Read\<close>. Both act on a state \<open>'w\<close> (the decryption stream they share);
  \<open>Read\<close> gets the length of the buffer and gives back the bytes it put there (Go's
  \<open>n\<close> is their number) and its error.
\<close>

record 'w checkReader =
  decrypted :: "'w \<Rightarrow> error option \<times> 'w"
  body :: "'w \<Rightarrow> nat \<Rightarrow> (bytes \<times> error option) \<times> 'w"

definition checkReader_Read ::
  "'w checkReader \<Rightarrow> nat \<Rightarrow> 'w \<Rightarrow> (bytes \<times> error option) \<times> 'w" where
  "checkReader_Read cr buf w =
     (case body cr w buf of
        ((n, sensitiveParsingError), w1) \<Rightarrow>
          if sensitiveParsingError = Some io_EOF then
            (case decrypted cr w1 of
               (mdcErr, w2) \<Rightarrow>
                 if mdcErr \<noteq> None then ((n, mdcErr), w2)
                 else ((n, Some io_EOF), w2))
          else if sensitiveParsingError \<noteq> None then
            ((n, Some (StructuralError ''parsing error'')), w1)
          else ((n, None), w1))"

text \<open>A sequence of \<open>Read\<close> calls, one per buffer length, and their results.\<close>

fun Reads ::
  "'w checkReader \<Rightarrow> nat list \<Rightarrow> 'w \<Rightarrow> (bytes \<times> error option) list \<times> 'w" where
  "Reads cr [] w = ([], w)"
| "Reads cr (buf # bufs) w =
     (case checkReader_Read cr buf w of
        (r, w1) \<Rightarrow> (case Reads cr bufs w1 of (rs, w2) \<Rightarrow> (r # rs, w2)))"

text \<open>
  To count the calls that \<open>checkReader\<close> makes, \<open>logged cr\<close> is \<open>cr\<close> with a log beside
  the state: every \<open>Read\<close> of the body appends its error result, every \<open>Close\<close> of the
  decrypted handle appends \<open>Closed\<close>. \<open>paired\<close> is the shape of a log in which \<open>Close\<close>
  follows each end-of-stream of the body at once and happens at no other time.
\<close>

datatype event = BodyRead "error option" | Closed

definition logged :: "'w checkReader \<Rightarrow> ('w \<times> event list) checkReader" where
  "logged cr =
     \<lparr>decrypted = (\<lambda>(w, log). case decrypted cr w of (e, w1) \<Rightarrow> (e, (w1, log @ [Closed]))),
      body = (\<lambda>(w, log) buf. case body cr w buf of
                ((n, e), w1) \<Rightarrow> ((n, e), (w1, log @ [BodyRead e])))\<rparr>"

fun paired :: "event list \<Rightarrow> bool" where
  "paired [] = True"
| "paired (Closed # es) = False"
| "paired (BodyRead e # es) =
     (if e = Some io_EOF then (case es of Closed # es1 \<Rightarrow> paired es1 | _ \<Rightarrow> False)
      else paired es)"

text \<open>
  A body like \<open>bytes.Reader\<close> over what is left of a byte slice (end-of-stream whenever
  nothing is left, also when asked again), and a handle whose \<open>Close\<close> succeeds.
\<close>

definition bytes_Reader_Read :: "bytes \<Rightarrow> nat \<Rightarrow> (bytes \<times> error option) \<times> bytes" where
  "bytes_Reader_Read w buf =
     (if w = [] then (([], Some io_EOF), w) else ((take buf w, None), drop buf w))"

definition plain_checkReader :: "bytes checkReader" where
  "plain_checkReader = \<lparr>decrypted = (\<lambda>w. (None, w)), body = bytes_Reader_Read\<rparr>"

definition failing_checkReader :: "bytes checkReader" where
  "failing_checkReader =
     \<lparr>decrypted = (\<lambda>w. (Some (Foreign ''mdc hash mismatch''), w)), body = bytes_Reader_Read\<rparr>"

definition broken_checkReader :: "bytes checkReader" where
  "broken_checkReader =
     \<lparr>decrypted = (\<lambda>w. (None, w)),
      body = (\<lambda>w buf. (([], Some (Foreign ''unexpected EOF'')), w))\<rparr>"

subsection \<open>Decryption with a session key\<close>

record LiteralData =
  IsUTF8 :: bool
  FileName :: string
  Time :: "32 word"

text \<open>
  The engine's \<open>MessageDetails\<close>: the fields that the two source files read, and
  \<open>engine_state\<close> for all that the engine keeps besides (hashes, signature state).
\<close>

record SignatureCandidate =
  SigType :: "8 word"

record ('r, 'm) MessageDetails =
  UnverifiedBody :: 'r
  LiteralData :: LiteralData
  SignatureCandidates :: "SignatureCandidate list"
  engine_state :: 'm

record PlainMessage =
  Data :: bytes
  pm_IsUTF8 :: bool
  pm_Filename :: string
  pm_ModTime :: int64

text \<open>
  What \<open>decryptWithSessionKeyAndContext\<close> calls and the sources do not hold:
  \<open>decryptStreamWithSessionKey\<close>, \<open>processSignatureExpiration\<close> and
  \<open>verifyDetailsSignature\<close> of this package, and \<open>bytes.Buffer.ReadFrom\<close> on the
  unverified body, which gives the bytes it appended to the buffer, its error
  (\<open>io.EOF\<close> is not one) and the message details after the reads. The message details
  are behind a pointer, so each of the functions that gets them gives them back as it
  leaves them.
\<close>

record ('r, 'm, 'k, 'x) decrypt_deps =
  decryptStreamWithSessionKey ::
    "SessionKey \<Rightarrow> bytes \<Rightarrow> 'k option \<Rightarrow> 'x option \<Rightarrow> bool \<Rightarrow> error + ('r, 'm) MessageDetails"
  ReadFrom ::
    "('r, 'm) MessageDetails \<Rightarrow> (bytes \<times> error option) \<times> ('r, 'm) MessageDetails"
  processSignatureExpiration ::
    "('r, 'm) MessageDetails \<Rightarrow> int64 \<Rightarrow> ('r, 'm) MessageDetails"
  verifyDetailsSignature ::
    "('r, 'm) MessageDetails \<Rightarrow> 'k \<Rightarrow> 'x option \<Rightarrow> error option \<times> ('r, 'm) MessageDetails"

text \<open>
  Go returns the pair \<open>(*PlainMessage, error)\<close>; both can be non-nil at once, so the
  model returns a pair of options.
\<close>

definition decryptWithSessionKeyAndContext ::
  "('r, 'm, 'k, 'x) decrypt_deps \<Rightarrow> SessionKey \<Rightarrow> bytes \<Rightarrow> 'k option \<Rightarrow> int64 \<Rightarrow> 'x option
     \<Rightarrow> PlainMessage option \<times> error option" where
  "decryptWithSessionKeyAndContext D sk dataPacket verifyKeyRing verifyTime verificationContext =
     (case decryptStreamWithSessionKey D sk dataPacket verifyKeyRing verificationContext False of
        Inl err \<Rightarrow> (None, Some err)
      | Inr md \<Rightarrow>
          (case ReadFrom D md of
             ((messageBuf, Some err), md1) \<Rightarrow>
               (None, Some (errors_Wrap err ''gopenpgp: error in reading message body''))
           | ((messageBuf, None), md1) \<Rightarrow>
               (case (case verifyKeyRing of
                        None \<Rightarrow> (md1, None)
                      | Some kr \<Rightarrow>
                          (let md2 = processSignatureExpiration D md1 verifyTime
                           in case verifyDetailsSignature D md2 kr verificationContext of
                                (err, md3) \<Rightarrow> (md3, err))) of
                  (md4, err) \<Rightarrow>
                    (Some \<lparr>Data = messageBuf,
                           pm_IsUTF8 = IsUTF8 (LiteralData md4),
                           pm_Filename = FileName (LiteralData md4),
                           pm_ModTime = ucast (Time (LiteralData md4))\<rparr>,
                     err))))"

definition DecryptAndVerify ::
  "('r, 'm, 'k, 'x) decrypt_deps \<Rightarrow> SessionKey \<Rightarrow> bytes \<Rightarrow> 'k option \<Rightarrow> int64
     \<Rightarrow> PlainMessage option \<times> error option" where
  "DecryptAndVerify D sk dataPacket verifyKeyRing verifyTime =
     decryptWithSessionKeyAndContext D sk dataPacket verifyKeyRing verifyTime None"

definition DecryptAndVerifyWithContext ::
  "('r, 'm, 'k, 'x) decrypt_deps \<Rightarrow> SessionKey \<Rightarrow> bytes \<Rightarrow> 'k option \<Rightarrow> int64 \<Rightarrow> 'x option
     \<Rightarrow> PlainMessage option \<times> error option" where
  "DecryptAndVerifyWithContext D sk dataPacket verifyKeyRing verifyTime verificationContext =
     decryptWithSessionKeyAndContext D sk dataPacket verifyKeyRing verifyTime verificationContext"

definition Decrypt ::
  "('r, 'm, 'k, 'x) decrypt_deps \<Rightarrow> SessionKey \<Rightarrow> bytes \<Rightarrow> PlainMessage option \<times> error option" where
  "Decrypt D sk dataPacket = DecryptAndVerify D sk dataPacket None 0"

text \<open>
  A stand-in for the missing functions, to run the decryption on a concrete packet: the
  packet is taken as the plaintext itself, and the signer's key is in no key ring.
\<close>

definition plain_md :: "bytes \<Rightarrow> (bytes, unit) MessageDetails" where
  "plain_md b =
     \<lparr>UnverifiedBody = b,
      LiteralData = \<lparr>IsUTF8 = True, FileName = ''note.txt'', Time = 0\<rparr>,
      SignatureCandidates = [],
      engine_state = ()\<rparr>"

definition no_verifier_deps :: "(bytes, unit, unit, unit) decrypt_deps" where
  "no_verifier_deps =
     \<lparr>decryptStreamWithSessionKey = (\<lambda>sk dataPacket kr ctx b. Inr (plain_md dataPacket)),
      ReadFrom = (\<lambda>md. ((UnverifiedBody md, None), md\<lparr>UnverifiedBody := []\<rparr>)),
      processSignatureExpiration = (\<lambda>md t. md),
      verifyDetailsSignature =
        (\<lambda>md kr ctx.
           (Some (Foreign ''Signature Verification Error: No matching signature''), md))\<rparr>"

section \<open>The verification handle (the second source file)\<close>

text \<open>
  \<open>time.Time\<close>, as far as it is used: a time is kept as its seconds since the epoch
  and the nanoseconds within the second; it is built by \<open>time.Unix(sec, nsec)\<close> and
  read by the method \<open>Unix()\<close>, which gives the seconds back.
\<close>

datatype time_Time = time_Unix int64 int64

fun Unix :: "time_Time \<Rightarrow> int64" where
  "Unix (time_Unix sec nsec) = sec"

text \<open>
  A \<open>Clock\<close> is a Go \<open>func() time.Time\<close>. Asking it is an effect on the time source,
  whose state is \<open>'c\<close>: a call gives the time and the state after the call.
\<close>

type_synonym 'c Clock = "'c \<Rightarrow> time_Time \<times> 'c"

text \<open>
  Modelled from the spec: \<open>NewConstantClock\<close> is missing from the sources. Section 4.2 of
  the spec: the read-config has "the verification time pinned to one instant"; the clock
  it builds answers \<open>time.Unix(t, 0)\<close> whenever it is asked and touches nothing.
\<close>

definition NewConstantClock :: "int64 \<Rightarrow> 'c Clock" where
  "NewConstantClock t = (\<lambda>c. (time_Unix t 0, c))"

text \<open>
  Modelled from the spec: \<open>constants.SignatureContextName\<close> is missing from the sources;
  it is the name of the notation that carries the verification context (section 4.2:
  "the engine is told which notation name is known").
\<close>

definition constants_SignatureContextName :: string where
  "constants_SignatureContextName = ''context@proton.ch''"

text \<open>The fields of the engine's \<open>packet.Config\<close> that the handle sets.\<close>

record 'c Config =
  Config_Time :: "'c Clock option"
  KnownNotations :: "(string \<times> bool) list"

definition empty_Config :: "'c Config" where
  "empty_Config = \<lparr>Config_Time = None, KnownNotations = []\<rparr>"

text \<open>The engine's codes of the binary and the text signature type (RFC 4880, 5.2.1).\<close>

definition SigTypeBinary :: "8 word" where "SigTypeBinary = 0"
definition SigTypeText :: "8 word" where "SigTypeText = 1"

record ('k, 'x, 'c) verifyHandle =
  VerifyKeyRing :: "'k option"
  VerificationContext :: "'x option"
  DisableVerifyTimeCheck :: bool
  clock :: "'c Clock"

definition defaultVerifyHandle :: "'c Clock \<Rightarrow> ('k, 'x, 'c) verifyHandle" where
  "defaultVerifyHandle clk =
     \<lparr>VerifyKeyRing = None, VerificationContext = None, DisableVerifyTimeCheck = False,
      clock = clk\<rparr>"

text \<open>
  Modelled from the spec: the declaration of \<open>VerifyDataReader\<close> is missing from the
  sources. Section 3 of the spec: it "owns an unverified-body reader, a reference to the
  key ring, the frozen verification timestamp captured at construction, the time-check
  toggle, the context, and an internal already-finalized flag"; the two constructors fill
  the fields in this order, after the message details.
\<close>

record ('r, 'm, 'k, 'x) VerifyDataReader =
  details :: "('r, 'm) MessageDetails"
  internalReader :: 'r
  verifyKeyRing :: "'k option"
  verifyTime :: int64
  disableVerifyTimeCheck :: bool
  readAll :: bool
  verificationContext :: "'x option"

record 'r clearsign_Block =
  Plaintext :: bytes
  Bytes :: bytes
  ArmoredSignature_Body :: 'r

record 'v VerifyCleartextResult =
  VerifyResult :: 'v
  cleartext :: bytes

text \<open>
  What the handle calls and the sources do not hold. Of the engine:
  \<open>openpgp.ReadMessage\<close> (its prompt argument is always nil),
  \<open>openpgp.VerifyDetachedSignatureReader\<close> and \<open>clearsign.Decode\<close> (nil block:
  \<open>None\<close>). Of this repository: \<open>getEntities\<close> of the key ring (called on the pointer
  as it is, nil or not), \<open>internal.NewSanitizeReader\<close>, and the methods of
  \<open>VerifyDataReader\<close>: \<open>io.Copy(ioutil.Discard, r)\<close> reads \<open>r\<close> to its end and
  \<open>VerifySignature\<close> gives the result. Of the standard library: \<open>bytes.NewReader\<close>
  and \<open>io.ReadAll\<close>.
\<close>

record ('r, 'm, 'k, 'x, 'c, 'e, 'v) verify_deps =
  openpgp_ReadMessage :: "'r \<Rightarrow> 'e \<Rightarrow> 'c Config \<Rightarrow> error + ('r, 'm) MessageDetails"
  openpgp_VerifyDetachedSignatureReader ::
    "'e \<Rightarrow> 'r \<Rightarrow> 'r \<Rightarrow> 'c Config \<Rightarrow> error + ('r, 'm) MessageDetails"
  clearsign_Decode :: "bytes \<Rightarrow> 'r clearsign_Block option"
  getEntities :: "'k option \<Rightarrow> 'e"
  NewSanitizeReader :: "'r \<Rightarrow> 'r"
  io_Copy_Discard ::
    "('r, 'm, 'k, 'x) VerifyDataReader \<Rightarrow> error option \<times> ('r, 'm, 'k, 'x) VerifyDataReader"
  VerifySignature :: "('r, 'm, 'k, 'x) VerifyDataReader \<Rightarrow> error + 'v"
  bytes_NewReader :: "bytes \<Rightarrow> 'r"
  io_ReadAll :: "'r \<Rightarrow> error + bytes"

text \<open>
  The constructors return their result and the state of the time source after them.
\<close>

definition verifyingReader ::
  "('r, 'm, 'k, 'x, 'c, 'e, 'v) verify_deps \<Rightarrow> ('k, 'x, 'c) verifyHandle \<Rightarrow> 'r \<Rightarrow> 'c
     \<Rightarrow> (error + ('r, 'm, 'k, 'x) VerifyDataReader) \<times> 'c" where
  "verifyingReader E vh signatureMessage c =
     (let config = empty_Config in
      case clock vh c of
        (now, c1) \<Rightarrow>
          (let verifyTime1 = Unix now;
               config1 = config\<lparr>Config_Time := Some (NewConstantClock verifyTime1)\<rparr>;
               config2 =
                 (if VerificationContext vh \<noteq> None
                  then config1\<lparr>KnownNotations := [(constants_SignatureContextName, True)]\<rparr>
                  else config1)
           in case openpgp_ReadMessage E signatureMessage
                     (getEntities E (VerifyKeyRing vh)) config2 of
                Inl err \<Rightarrow>
                  (Inl (errors_Wrap err ''gopenpgp: initialize signature reader failed''), c1)
              | Inr md \<Rightarrow>
                  (Inr \<lparr>details = md,
                        internalReader = UnverifiedBody md,
                        verifyKeyRing = VerifyKeyRing vh,
                        verifyTime = verifyTime1,
                        disableVerifyTimeCheck = DisableVerifyTimeCheck vh,
                        readAll = False,
                        verificationContext = VerificationContext vh\<rparr>, c1)))"

definition verifyingDetachedReader ::
  "('r, 'm, 'k, 'x, 'c, 'e, 'v) verify_deps \<Rightarrow> 'r \<Rightarrow> 'r \<Rightarrow> 'k option \<Rightarrow> 'x option \<Rightarrow> bool
     \<Rightarrow> 'c Config option \<Rightarrow> 'c Clock \<Rightarrow> 'c
     \<Rightarrow> (error + ('r, 'm, 'k, 'x) VerifyDataReader) \<times> 'c" where
  "verifyingDetachedReader E data signature verifyKeyRing1 verificationContext1
       disableVerifyTimeCheck1 config clock1 c =
     (let config0 = (case config of None \<Rightarrow> empty_Config | Some cfg \<Rightarrow> cfg) in
      case clock1 c of
        (now, c1) \<Rightarrow>
          (let verifyTime1 = Unix now;
               config1 = config0\<lparr>Config_Time := Some (NewConstantClock verifyTime1)\<rparr>;
               config2 =
                 (if verificationContext1 \<noteq> None
                  then config1\<lparr>KnownNotations := [(constants_SignatureContextName, True)]\<rparr>
                  else config1)
           in case openpgp_VerifyDetachedSignatureReader E
                     (getEntities E verifyKeyRing1) data signature config2 of
                Inl err \<Rightarrow>
                  (Inl (errors_Wrap err ''gopenpgp: verify signature reader failed''), c1)
              | Inr md \<Rightarrow>
                  (let internalReader0 = UnverifiedBody md;
                       internalReader1 =
                         (if length (SignatureCandidates md) > 0
                             \<and> SigType (SignatureCandidates md ! 0) = SigTypeText
                          then NewSanitizeReader E internalReader0
                          else internalReader0)
                   in (Inr \<lparr>details = md,
                            internalReader = internalReader1,
                            verifyKeyRing = verifyKeyRing1,
                            verifyTime = verifyTime1,
                            disableVerifyTimeCheck = disableVerifyTimeCheck1,
                            readAll = False,
                            verificationContext = verificationContext1\<rparr>, c1))))"

definition vh_verifyingDetachedReader ::
  "('r, 'm, 'k, 'x, 'c, 'e, 'v) verify_deps \<Rightarrow> ('k, 'x, 'c) verifyHandle \<Rightarrow> 'r \<Rightarrow> 'r \<Rightarrow> 'c
     \<Rightarrow> (error + ('r, 'm, 'k, 'x) VerifyDataReader) \<times> 'c" where
  "vh_verifyingDetachedReader E vh data signature c =
     verifyingDetachedReader E data signature (VerifyKeyRing vh) (VerificationContext vh)
       (DisableVerifyTimeCheck vh) None (clock vh) c"

definition verifyDetachedSignature ::
  "('r, 'm, 'k, 'x, 'c, 'e, 'v) verify_deps \<Rightarrow> ('k, 'x, 'c) verifyHandle \<Rightarrow> 'r \<Rightarrow> bytes \<Rightarrow> 'c
     \<Rightarrow> (error + 'v) \<times> 'c" where
  "verifyDetachedSignature E vh origText signature c =
     (let signatureReader = bytes_NewReader E signature in
      case vh_verifyingDetachedReader E vh origText signatureReader c of
        (Inl err, c1) \<Rightarrow> (Inl (errors_Wrap err ''gopenpgp: verify signature failed''), c1)
      | (Inr ptReader, c1) \<Rightarrow>
          (case io_Copy_Discard E ptReader of
             (Some err, ptReader1) \<Rightarrow> (Inl (errors_Wrap err ''gopenpgp: hashing failed''), c1)
           | (None, ptReader1) \<Rightarrow> (VerifySignature E ptReader1, c1)))"

text \<open>
  \<open>verifyCleartext\<close> ends with the slice expression
  \<open>block.Plaintext[:len(block.Plaintext)-1]\<close>; Go panics when the upper bound of a
  slice is negative, so the function has three outcomes: a result, an error, a panic.
  The second test of \<open>err\<close> after \<open>io.ReadAll\<close> cannot succeed and has no branch.
\<close>

datatype 'a outcome = Returns 'a | Fails error | Panics string

definition verifyCleartext ::
  "('r, 'm, 'k, 'x, 'c, 'e, 'v) verify_deps \<Rightarrow> ('k, 'x, 'c) verifyHandle \<Rightarrow> bytes \<Rightarrow> 'c
     \<Rightarrow> 'v VerifyCleartextResult outcome \<times> 'c" where
  "verifyCleartext E vh cleartext_in c =
     (case clearsign_Decode E cleartext_in of
        None \<Rightarrow> (Fails (errors_New ''gopenpgp: not able to parse cleartext message''), c)
      | Some block \<Rightarrow>
          (case io_ReadAll E (ArmoredSignature_Body block) of
             Inl err \<Rightarrow>
               (Fails (errors_Wrap err ''gopenpgp: signature not parsable in cleartext''), c)
           | Inr signature \<Rightarrow>
               (let reader = bytes_NewReader E (Bytes block) in
                case verifyDetachedSignature E vh reader signature c of
                  (Inl err, c1) \<Rightarrow>
                    (Fails (errors_Wrap err
                       ''gopenpgp: cleartext verify failed with non-signature error''), c1)
                | (Inr result, c1) \<Rightarrow>
                    (let high = int (length (Plaintext block)) - 1 in
                     if high < 0 then (Panics ''slice bounds out of range'', c1)
                     else (Returns \<lparr>VerifyResult = result,
                                     cleartext = take (nat high) (Plaintext block)\<rparr>, c1)))))"

definition VerifyCleartext ::
  "('r, 'm, 'k, 'x, 'c, 'e, 'v) verify_deps \<Rightarrow> ('k, 'x, 'c) verifyHandle \<Rightarrow> bytes \<Rightarrow> 'c
     \<Rightarrow> 'v VerifyCleartextResult outcome \<times> 'c" where
  "VerifyCleartext E vh cleartext_in c = verifyCleartext E vh cleartext_in c"

subsection \<open>A small engine to run the handle on\<close>

text \<open>
  Stand-ins for the collaborators, to evaluate the handle on concrete inputs. A reader
  is the bytes it still has to give. The time source is a count of seconds, and
  \<open>ticking_clock\<close> moves it on by one second at every call. The stand-in for
  \<open>openpgp.VerifyDetachedSignatureReader\<close> reports one signature candidate for each
  byte of the signature, of the type that the byte names, over the data as the body;
  the stand-in for \<open>clearsign.Decode\<close> takes the input as the text section.
\<close>

text \<open>
  Modelled from the spec: \<open>internal.NewSanitizeReader\<close> is missing from the sources.
  Section 4.2 of the spec calls it "a canonicalization filter" for line endings, and
  section 8 has it bring CRLF line endings to the LF-only form; on a reader that is the
  bytes still to come, it is the replacement of each CR LF by LF.
\<close>

fun crlf_to_lf :: "bytes \<Rightarrow> bytes" where
  "crlf_to_lf (a # b # rest) =
     (if a = 13 \<and> b = 10 then 10 # crlf_to_lf rest else a # crlf_to_lf (b # rest))"
| "crlf_to_lf [a] = [a]"
| "crlf_to_lf [] = []"

definition ticking_clock :: "nat Clock" where
  "ticking_clock = (\<lambda>c. (time_Unix (of_nat c) 0, Suc c))"

definition small_md :: "bytes \<Rightarrow> bytes \<Rightarrow> (bytes, unit) MessageDetails" where
  "small_md data signature =
     \<lparr>UnverifiedBody = data,
      LiteralData = \<lparr>IsUTF8 = False, FileName = [], Time = 0\<rparr>,
      SignatureCandidates = map (\<lambda>t. \<lparr>SigType = t\<rparr>) signature,
      engine_state = ()\<rparr>"

definition small_deps :: "(bytes, unit, unit, unit, nat, unit, string) verify_deps" where
  "small_deps =
     \<lparr>openpgp_ReadMessage = (\<lambda>r ents cfg. Inr (small_md r [])),
      openpgp_VerifyDetachedSignatureReader = (\<lambda>ents data sigr cfg. Inr (small_md data sigr)),
      clearsign_Decode =
        (\<lambda>input. Some \<lparr>Plaintext = input, Bytes = butlast input,
                        ArmoredSignature_Body = [SigTypeText]\<rparr>),
      getEntities = (\<lambda>kr. ()),
      NewSanitizeReader = crlf_to_lf,
      io_Copy_Discard = (\<lambda>r. (None, r\<lparr>internalReader := [], readAll := True\<rparr>)),
      VerifySignature = (\<lambda>r. Inr ''no verifier''),
      bytes_NewReader = (\<lambda>b. b),
      io_ReadAll = (\<lambda>r. Inr r)\<rparr>"

text \<open>
  An engine that refuses every config whose clock does not answer the second 1000 at two
  different states of the time source, and is \<open>small_deps\<close> otherwise.
\<close>

definition pinned_1000 :: "nat Config \<Rightarrow> bool" where
  "pinned_1000 cfg =
     (case Config_Time cfg of
        None \<Rightarrow> False
      | Some clk \<Rightarrow> Unix (fst (clk 0)) = 1000 \<and> Unix (fst (clk 7)) = 1000)"

definition strict_deps :: "(bytes, unit, unit, unit, nat, unit, string) verify_deps" where
  "strict_deps =
     small_deps
       \<lparr>openpgp_ReadMessage :=
          (\<lambda>r ents cfg. if pinned_1000 cfg then Inr (small_md r [])
                         else Inl (Foreign ''clock not pinned'')),
        openpgp_VerifyDetachedSignatureReader :=
          (\<lambda>ents data sigr cfg. if pinned_1000 cfg then Inr (small_md data sigr)
                                 else Inl (Foreign ''clock not pinned''))\<rparr>"

definition small_session :: "(unit, unit, nat) verifyHandle" where
  "small_session = (defaultVerifyHandle ticking_clock)\<lparr>VerifyKeyRing := Some ()\<rparr>"

text \<open>The order in which one run of the \<open>range\<close> loop may visit \<open>symKeyAlgos\<close>.\<close>

definition one_order :: "(string \<times> CipherFunction) list" where
  "one_order =
     [(constants_AES256, CipherAES256),
      (constants_TripleDES, Cipher3DES),
      (constants_CAST5, CipherCAST5),
      (constants_ThreeDES, Cipher3DES),
      (constants_AES192, CipherAES192),
      (constants_AES128, CipherAES128)]"

section \<open>The engine and the reader's methods, as the spec describes them\<close>

text \<open>
  Modelled from the spec: the engine's \<open>openpgp.VerifyDetachedSignatureReader\<close> and the
  methods \<open>Read\<close> and \<open>VerifySignature\<close> of \<open>VerifyDataReader\<close> are missing from the
  sources. Section 4.2 of the spec: "the detached signature is parsed independently of the
  data stream; the data reader is wrapped to feed a running hash as bytes pass through";
  a signature of type text has "canonicalized-line-ending semantics", it was "computed
  over canonicalized text, not raw bytes", and the canonical text is LF-only (section 8);
  "reading from the exposed reader only advances plaintext production and internal hash
  state". Section 4.3: \<open>VerifySignature\<close> before the end of the stream gives an incomplete
  outcome; after it, for each candidate, 1. an issuer that is not in the key ring gives
  NoVerifier, 2. unless the time check is disabled, a frozen timestamp outside the
  validity window gives NotYetValid or Expired, 3. with a context configured, a missing
  critical notation of that name gives a context failure, 4. the cryptographic check
  gives Failed on a mismatch; 5. no candidates give NotSigned. The result gives access to
  the outcome of every candidate.

  Parsing the packets and the cryptography are the engine's own: \<open>parse\<close> reads the
  signatures off the signature stream, and \<open>digest\<close> is the hash; a signature holds the
  digest that its signer signed. A reader is the bytes it still has to give, a key ring
  the identities of its keys (section 6: it "exposes a set of verifier identities usable
  by the engine for signature-issuer resolution"), a context the name of its notation.
\<close>

record signature_packet =
  sp_type :: "8 word"
  sp_issuer :: nat
  sp_created :: int64
  sp_expires :: "int64 option"
  sp_notations :: "string list"
  sp_digest :: bytes

record detached_state =
  hashed :: bytes
  signatures :: "signature_packet list"

datatype candidate_result =
  Success | NoVerifier | NotYetValid | Expired | ContextMismatch | Failed

datatype verify_result = NotSigned | Incomplete | Resolved "candidate_result list"

definition model_VerifyDetachedSignatureReader ::
  "(bytes \<Rightarrow> signature_packet list option) \<Rightarrow> nat list \<Rightarrow> bytes \<Rightarrow> bytes \<Rightarrow> 'c Config
     \<Rightarrow> error + (bytes, detached_state) MessageDetails" where
  "model_VerifyDetachedSignatureReader parse ents data sigr cfg =
     (case parse sigr of
        None \<Rightarrow> Inl (StructuralError ''malformed signature'')
      | Some sps \<Rightarrow>
          Inr \<lparr>UnverifiedBody = data,
                LiteralData = \<lparr>IsUTF8 = False, FileName = [], Time = 0\<rparr>,
                SignatureCandidates = map (\<lambda>sp. \<lparr>SigType = sp_type sp\<rparr>) sps,
                engine_state = \<lparr>hashed = [], signatures = sps\<rparr>\<rparr>)"

text \<open>
  Reading the exposed reader to its end: all the bytes of the data pass through the
  unverified body, filter or no filter above it, and so into the running hash.
\<close>

definition model_read_to_end ::
  "(bytes, detached_state, 'k, 'x) VerifyDataReader
     \<Rightarrow> error option \<times> (bytes, detached_state, 'k, 'x) VerifyDataReader" where
  "model_read_to_end r =
     (None,
      r\<lparr>details :=
          (details r)
            \<lparr>UnverifiedBody := [],
             engine_state :=
               (engine_state (details r))
                 \<lparr>hashed := hashed (engine_state (details r)) @ UnverifiedBody (details r)\<rparr>\<rparr>,
        internalReader := [],
        readAll := True\<rparr>)"

definition candidate_outcome ::
  "(bytes \<Rightarrow> bytes) \<Rightarrow> (bytes, detached_state, nat list, string) VerifyDataReader
     \<Rightarrow> signature_packet \<Rightarrow> candidate_result" where
  "candidate_outcome digest r sp =
     (let seen = hashed (engine_state (details r)) in
      if sp_issuer sp \<notin> set (case verifyKeyRing r of None \<Rightarrow> [] | Some ks \<Rightarrow> ks)
      then NoVerifier
      else if \<not> disableVerifyTimeCheck r \<and> sint (verifyTime r) < sint (sp_created sp)
      then NotYetValid
      else if \<not> disableVerifyTimeCheck r
              \<and> (case sp_expires sp of None \<Rightarrow> False | Some e \<Rightarrow> sint e \<le> sint (verifyTime r))
      then Expired
      else if (case verificationContext r of
                 None \<Rightarrow> False
               | Some name \<Rightarrow> name \<notin> set (sp_notations sp))
      then ContextMismatch
      else if sp_digest sp \<noteq> digest (if sp_type sp = SigTypeText then crlf_to_lf seen else seen)
      then Failed
      else Success)"

definition model_VerifySignature ::
  "(bytes \<Rightarrow> bytes) \<Rightarrow> (bytes, detached_state, nat list, string) VerifyDataReader
     \<Rightarrow> error + verify_result" where
  "model_VerifySignature digest r =
     Inr (if \<not> readAll r then Incomplete
          else if signatures (engine_state (details r)) = [] then NotSigned
          else Resolved (map (candidate_outcome digest r) (signatures (engine_state (details r)))))"

text \<open>
  The collaborators \<open>E\<close> with the detached verification, the reader's methods, the key
  ring and the filter as above; the rest of \<open>E\<close> is left as it is.
\<close>

definition model_deps ::
  "(bytes \<Rightarrow> signature_packet list option) \<Rightarrow> (bytes \<Rightarrow> bytes)
     \<Rightarrow> (bytes, detached_state, nat list, string, 'c, nat list, verify_result) verify_deps
     \<Rightarrow> (bytes, detached_state, nat list, string, 'c, nat list, verify_result) verify_deps" where
  "model_deps parse digest E =
     E\<lparr>openpgp_VerifyDetachedSignatureReader := model_VerifyDetachedSignatureReader parse,
       getEntities := (\<lambda>kr. case kr of None \<Rightarrow> [] | Some ks \<Rightarrow> ks),
       NewSanitizeReader := crlf_to_lf,
       io_Copy_Discard := model_read_to_end,
       VerifySignature := model_VerifySignature digest,
       bytes_NewReader := (\<lambda>b. b)\<rparr>"

text \<open>
  Modelled from the spec: the engine's \<open>clearsign.Decode\<close> is missing from the sources.
  Section 4.4 of the spec: it "parses the cleartext-armor container into its plaintext
  section and its detached-signature section", and "the framing convention appends
  exactly one extra terminator that is not part of the original content". The block it
  gives holds the lines of the text section twice: in \<open>Plaintext\<close> each line is followed
  by LF, the last one too; in \<open>Bytes\<close>, the text that was signed, the lines are joined by
  CR LF and nothing follows the last (RFC 4880, section 7.1: the signed text has CR LF
  line endings, and the line ending before the signature is not part of it). Splitting
  the container is the engine's own: \<open>sections\<close> gives the lines of the text section and
  the body of the armored signature, or nothing for a malformed container.
\<close>

fun join_lf :: "bytes list \<Rightarrow> bytes" where
  "join_lf [] = []"
| "join_lf [l] = l"
| "join_lf (l # l1 # ls) = l @ [10] @ join_lf (l1 # ls)"

fun join_crlf :: "bytes list \<Rightarrow> bytes" where
  "join_crlf [] = []"
| "join_crlf [l] = l"
| "join_crlf (l # l1 # ls) = l @ [13, 10] @ join_crlf (l1 # ls)"

definition clearsign_Block_of :: "bytes list \<Rightarrow> 'r \<Rightarrow> 'r clearsign_Block" where
  "clearsign_Block_of ls sigbody =
     \<lparr>Plaintext = concat (map (\<lambda>l. l @ [10]) ls),
      Bytes = join_crlf ls,
      ArmoredSignature_Body = sigbody\<rparr>"

definition model_clearsign_Decode ::
  "(bytes \<Rightarrow> (bytes list \<times> 'r) option) \<Rightarrow> bytes \<Rightarrow> 'r clearsign_Block option" where
  "model_clearsign_Decode sections input =
     (case sections input of
        None \<Rightarrow> None
      | Some (ls, sigbody) \<Rightarrow> Some (clearsign_Block_of ls sigbody))"

subsection \<open>Concrete signatures and containers to run the model on\<close>

text \<open>
  A signature stream that holds two signatures by the key 7 of the digest it consists
  of, a binary one and then a text one; the identity as the hash; a key ring with the
  key 7. \<open>split_lines\<close> takes an input as nothing but a text section and reads its lines
  off it, each up to its LF, without the CR before the LF if there is one.
\<close>

definition two_signatures :: "bytes \<Rightarrow> signature_packet list option" where
  "two_signatures sigr =
     Some [\<lparr>sp_type = SigTypeBinary, sp_issuer = 7, sp_created = 900, sp_expires = None,
             sp_notations = [], sp_digest = sigr\<rparr>,
           \<lparr>sp_type = SigTypeText, sp_issuer = 7, sp_created = 900, sp_expires = Some 2000,
             sp_notations = [], sp_digest = sigr\<rparr>]"

definition base_deps ::
  "(bytes, detached_state, nat list, string, nat, nat list, verify_result) verify_deps" where
  "base_deps =
     \<lparr>openpgp_ReadMessage = (\<lambda>r ents cfg. Inl (Foreign ''no inline message'')),
      openpgp_VerifyDetachedSignatureReader =
        (\<lambda>ents data sigr cfg. Inl (Foreign ''no detached signature'')),
      clearsign_Decode = (\<lambda>input. None),
      getEntities = (\<lambda>kr. []),
      NewSanitizeReader = (\<lambda>r. r),
      io_Copy_Discard = (\<lambda>r. (None, r)),
      VerifySignature = (\<lambda>r. Inr Incomplete),
      bytes_NewReader = (\<lambda>b. b),
      io_ReadAll = (\<lambda>r. Inr r)\<rparr>"

definition key7_session :: "(nat list, string, nat) verifyHandle" where
  "key7_session = (defaultVerifyHandle ticking_clock)\<lparr>VerifyKeyRing := Some [7]\<rparr>"

fun split_lines_from :: "bytes \<Rightarrow> bytes \<Rightarrow> bytes list" where
  "split_lines_from cur [] = (if cur = [] then [] else [cur])"
| "split_lines_from cur (x # xs) =
     (if x = 10
      then (if cur \<noteq> [] \<and> last cur = 13 then butlast cur else cur) # split_lines_from [] xs
      else split_lines_from (cur @ [x]) xs)"

definition split_lines :: "bytes \<Rightarrow> bytes list" where
  "split_lines input = split_lines_from [] input"

definition lines_deps :: "(bytes, unit, unit, unit, nat, unit, string) verify_deps" where
  "lines_deps =
     small_deps
       \<lparr>clearsign_Decode :=
          model_clearsign_Decode (\<lambda>input. Some (split_lines input, [SigTypeText]))\<rparr>"

section \<open>Properties of the algorithm table\<close>

lemmas cipher_defs =
  Cipher3DES_def CipherCAST5_def CipherAES128_def CipherAES192_def CipherAES256_def

lemmas constants_defs =
  constants_ThreeDES_def constants_TripleDES_def constants_CAST5_def
  constants_AES128_def constants_AES192_def constants_AES256_def

lemma symKeyAlgos_simps:
  "symKeyAlgos constants_ThreeDES = Some Cipher3DES"
  "symKeyAlgos constants_TripleDES = Some Cipher3DES"
  "symKeyAlgos constants_CAST5 = Some CipherCAST5"
  "symKeyAlgos constants_AES128 = Some CipherAES128"
  "symKeyAlgos constants_AES192 = Some CipherAES192"
  "symKeyAlgos constants_AES256 = Some CipherAES256"
  by (simp_all add: symKeyAlgos_def symKeyAlgos_entries_def constants_defs)

lemma distinct_keys_symKeyAlgos: "distinct (map fst symKeyAlgos_entries)"
  by (simp add: symKeyAlgos_entries_def constants_defs)

lemma symKeyAlgos_entry_iff: "symKeyAlgos k = Some v \<longleftrightarrow> (k, v) \<in> set symKeyAlgos_entries"
  unfolding symKeyAlgos_def using distinct_keys_symKeyAlgos by simp

lemma zero_not_in_table: "symKeyAlgos k \<noteq> Some 0"
  by (auto simp: symKeyAlgos_entry_iff symKeyAlgos_entries_def cipher_defs)

lemma range_loop_found:
  "(k, cipher) \<in> set order \<Longrightarrow> (range_loop order cipher d, cipher) \<in> set order"
proof (induction order)
  case Nil
  then show ?case by simp
next
  case (Cons e rest)
  obtain k' v where e: "e = (k', v)"
    by (cases e)
  show ?case
  proof (cases "v = cipher")
    case True
    with e show ?thesis by simp
  next
    case False
    with Cons e have "(range_loop rest cipher d, cipher) \<in> set rest"
      by simp
    with False e show ?thesis by simp
  qed
qed

lemma range_loop_default:
  "\<forall>k. (k, cipher) \<notin> set order \<Longrightarrow> range_loop order cipher d = d"
  by (induction order) auto

lemma no_blowfish: "symKeyAlgos ''blowfish'' = None"
  by (simp add: symKeyAlgos_def symKeyAlgos_entries_def constants_defs)

lemma range_order_one_order: "range_order one_order"
  by (auto simp add: range_order_def one_order_def symKeyAlgos_entries_def constants_defs cipher_defs)

lemma ran_symKeyAlgos_examples: "Cipher3DES \<in> ran symKeyAlgos" "(1::8 word) \<notin> ran symKeyAlgos"
  using symKeyAlgos_simps(1)
  by (auto simp: ran_def symKeyAlgos_entry_iff symKeyAlgos_entries_def cipher_defs)

text \<open>
  C6. \<open>checkSize\<close> accepts a key outside version-6 mode exactly when its algorithm is
  an entry of the table and the key has that algorithm's key size; a known algorithm
  with any other length (one byte short or long included) gets the error "wrong session
  key size", an unknown one "unknown symmetric key algorithm". In version-6 mode it
  accepts exactly the non-empty keys.
\<close>

theorem checkSize_iff:
  "(checkSize KeySize sk = None \<longleftrightarrow>
      (if V6 sk then Key sk \<noteq> []
       else \<exists>cf. symKeyAlgos (Algo sk) = Some cf \<and> KeySize cf = int (length (Key sk))))
   \<and> (\<not> V6 sk \<and> symKeyAlgos (Algo sk) = Some cf \<and> int (length (Key sk)) \<noteq> KeySize cf
        \<longrightarrow> checkSize KeySize sk = Some (errors_New ''wrong session key size''))
   \<and> (\<not> V6 sk \<and> symKeyAlgos (Algo sk) = Some cf
        \<and> (int (length (Key sk)) = KeySize cf - 1 \<or> int (length (Key sk)) = KeySize cf + 1)
        \<longrightarrow> checkSize KeySize sk \<noteq> None)
   \<and> (\<not> V6 sk \<and> symKeyAlgos (Algo sk) = None
        \<longrightarrow> checkSize KeySize sk = Some (errors_New ''unknown symmetric key algorithm''))
   \<and> (V6 sk \<and> Key sk = [] \<longrightarrow> checkSize KeySize sk = Some (errors_New ''empty session key''))"
  by (auto simp: checkSize_def split: option.splits)

theorem checkSize_iff_witness:
  "checkSize engine_KeySize \<lparr>V6 = False, Key = replicate 32 0, Algo = constants_AES256\<rparr> = None
   \<and> checkSize engine_KeySize \<lparr>V6 = False, Key = replicate 31 0, Algo = constants_AES256\<rparr>
       = Some (errors_New ''wrong session key size'')
   \<and> checkSize engine_KeySize \<lparr>V6 = False, Key = replicate 33 0, Algo = constants_AES256\<rparr>
       = Some (errors_New ''wrong session key size'')
   \<and> checkSize engine_KeySize \<lparr>V6 = False, Key = replicate 16 0, Algo = ''blowfish''\<rparr>
       = Some (errors_New ''unknown symmetric key algorithm'')
   \<and> checkSize engine_KeySize \<lparr>V6 = True, Key = [], Algo = ''''\<rparr>
       = Some (errors_New ''empty session key'')
   \<and> checkSize engine_KeySize \<lparr>V6 = True, Key = [7], Algo = ''''\<rparr> = None"
  using checkSize_iff [of engine_KeySize "\<lparr>V6 = False, Key = replicate 32 0, Algo = constants_AES256\<rparr>" CipherAES256]
    checkSize_iff [of engine_KeySize "\<lparr>V6 = False, Key = replicate 31 0, Algo = constants_AES256\<rparr>" CipherAES256]
    checkSize_iff [of engine_KeySize "\<lparr>V6 = False, Key = replicate 33 0, Algo = constants_AES256\<rparr>" CipherAES256]
    checkSize_iff [of engine_KeySize "\<lparr>V6 = False, Key = replicate 16 0, Algo = ''blowfish''\<rparr>" 0]
    checkSize_iff [of engine_KeySize "\<lparr>V6 = True, Key = [], Algo = ''''\<rparr>" 0]
    checkSize_iff [of engine_KeySize "\<lparr>V6 = True, Key = [7], Algo = ''''\<rparr>" 0]
  by (simp add: symKeyAlgos_simps no_blowfish engine_KeySize_def cipher_defs)

text \<open>
  C7. Whatever order the \<open>range\<close> loop visits the table in, \<open>getAlgo\<close> returns the empty
  identifier for the code zero, an identifier that the table maps to the code when the
  code is in the table, and \<open>constants.AES256\<close> for every other code.
\<close>

theorem getAlgo_cases:
  assumes "range_order order"
  shows "getAlgo order 0 = ''''
     \<and> (cipher \<in> ran symKeyAlgos \<longrightarrow> symKeyAlgos (getAlgo order cipher) = Some cipher)
     \<and> (cipher \<noteq> 0 \<and> cipher \<notin> ran symKeyAlgos \<longrightarrow> getAlgo order cipher = constants_AES256)"
proof (intro conjI impI)
  show "getAlgo order 0 = ''''"
    by (simp add: getAlgo_def)
next
  assume "cipher \<in> ran symKeyAlgos"
  then obtain k where k: "symKeyAlgos k = Some cipher"
    by (auto simp: ran_def)
  then have nz: "cipher \<noteq> 0"
    using zero_not_in_table by auto
  from k assms have "(k, cipher) \<in> set order"
    by (simp add: symKeyAlgos_entry_iff range_order_def)
  then have "(range_loop order cipher constants_AES256, cipher) \<in> set order"
    by (rule range_loop_found)
  with assms have "symKeyAlgos (range_loop order cipher constants_AES256) = Some cipher"
    by (simp add: symKeyAlgos_entry_iff range_order_def)
  with nz show "symKeyAlgos (getAlgo order cipher) = Some cipher"
    by (simp add: getAlgo_def)
next
  assume a: "cipher \<noteq> 0 \<and> cipher \<notin> ran symKeyAlgos"
  then have "\<forall>k. (k, cipher) \<notin> set order"
    using assms by (auto simp: ran_def symKeyAlgos_entry_iff range_order_def)
  then have "range_loop order cipher constants_AES256 = constants_AES256"
    by (rule range_loop_default)
  with a show "getAlgo order cipher = constants_AES256"
    by (simp add: getAlgo_def)
qed

theorem getAlgo_cases_witness:
  "range_order one_order \<and> getAlgo one_order 0 = ''''
   \<and> Cipher3DES \<in> ran symKeyAlgos
   \<and> getAlgo one_order Cipher3DES = constants_TripleDES
   \<and> symKeyAlgos (getAlgo one_order Cipher3DES) = Some Cipher3DES
   \<and> (1::8 word) \<noteq> 0 \<and> 1 \<notin> ran symKeyAlgos \<and> getAlgo one_order 1 = constants_AES256"
proof -
  have "getAlgo one_order Cipher3DES = constants_TripleDES"
    by (simp add: getAlgo_def one_order_def cipher_defs)
  then show ?thesis
    using getAlgo_cases [OF range_order_one_order, of Cipher3DES]
      getAlgo_cases [OF range_order_one_order, of 1]
      range_order_one_order ran_symKeyAlgos_examples
    by simp
qed

section \<open>Properties of checkReader\<close>

lemma logged_Read:
  "checkReader_Read (logged cr) buf (w, l) =
     (fst (checkReader_Read cr buf w),
      (snd (checkReader_Read cr buf w),
       l @ (if snd (fst (body cr w buf)) = Some io_EOF
            then [BodyRead (Some io_EOF), Closed]
            else [BodyRead (snd (fst (body cr w buf)))])))"
proof -
  obtain n e w1 where b: "body cr w buf = ((n, e), w1)"
    by (cases "body cr w buf") auto
  obtain m w2 where d: "decrypted cr w1 = (m, w2)"
    by (cases "decrypted cr w1")
  show ?thesis
    using b d by (simp add: checkReader_Read_def logged_def)
qed

lemma paired_append: "paired xs \<Longrightarrow> paired ys \<Longrightarrow> paired (xs @ ys)"
  by (induction xs rule: paired.induct) (auto split: list.splits event.splits if_splits)

lemma paired_count: "paired xs \<Longrightarrow> count_list xs Closed = count_list xs (BodyRead (Some io_EOF))"
  by (induction xs rule: paired.induct) (auto split: list.splits event.splits if_splits)

lemma logged_Reads:
  "\<exists>tr. Reads (logged cr) bufs (w, l) = (fst (Reads cr bufs w), (snd (Reads cr bufs w), l @ tr)) \<and> paired tr"
proof (induction bufs arbitrary: w l)
  case Nil
  show ?case by simp
next
  case (Cons buf bufs)
  define w1 where "w1 = snd (checkReader_Read cr buf w)"
  define t1 where "t1 = (if snd (fst (body cr w buf)) = Some io_EOF
            then [BodyRead (Some io_EOF), Closed]
            else [BodyRead (snd (fst (body cr w buf)))])"
  have p1: "paired t1" by (simp add: t1_def)
  from Cons [of w1 "l @ t1"] obtain tr where
    tr: "Reads (logged cr) bufs (w1, l @ t1) = (fst (Reads cr bufs w1), (snd (Reads cr bufs w1), (l @ t1) @ tr))"
    and p: "paired tr" by blast
  have "Reads (logged cr) (buf # bufs) (w, l) =
      (fst (Reads cr (buf # bufs) w), (snd (Reads cr (buf # bufs) w), l @ (t1 @ tr)))"
    using tr by (simp add: logged_Read w1_def t1_def split: prod.splits)
  moreover have "paired (t1 @ tr)" using p1 p by (rule paired_append)
  ultimately show ?case by blast
qed

text \<open>
  C3. One \<open>Read\<close> of a \<open>checkReader\<close>, by the result \<open>(n, e)\<close> of the body's
  \<open>Read\<close>. On \<open>io.EOF\<close> the handle is closed, and the call returns the error of
  \<open>Close\<close> when there is one and \<open>io.EOF\<close> only when there is none (so, unless
  \<open>Close\<close> fails with \<open>io.EOF\<close> itself, end-of-stream is returned exactly when the
  finalization succeeded). On any other error the call returns the structural error
  "parsing error" in its place and does not close. With no error it returns none. The
  bytes read are passed on as they are in all three cases.
\<close>

theorem checkReader_Read_cases:
  assumes "body cr w buf = ((n, e), w1)" and "decrypted cr w1 = (mdcErr, w2)"
  shows "(e = Some io_EOF \<longrightarrow>
            checkReader_Read cr buf w = ((n, if mdcErr = None then Some io_EOF else mdcErr), w2))
       \<and> (e = Some io_EOF \<and> mdcErr \<noteq> Some io_EOF \<longrightarrow>
            (snd (fst (checkReader_Read cr buf w)) = Some io_EOF \<longleftrightarrow> mdcErr = None))
       \<and> (e \<noteq> None \<and> e \<noteq> Some io_EOF \<longrightarrow>
            checkReader_Read cr buf w = ((n, Some (StructuralError ''parsing error'')), w1))
       \<and> (e = None \<longrightarrow> checkReader_Read cr buf w = ((n, None), w1))
       \<and> snd (snd (checkReader_Read (logged cr) buf (w, []))) =
            (if e = Some io_EOF then [BodyRead e, Closed] else [BodyRead e])"
proof -
  have "snd (snd (checkReader_Read (logged cr) buf (w, []))) =
          (if e = Some io_EOF then [BodyRead e, Closed] else [BodyRead e])"
    using assms by (simp add: logged_Read)
  moreover have "checkReader_Read cr buf w =
      (if e = Some io_EOF then ((n, if mdcErr = None then Some io_EOF else mdcErr), w2)
       else if e \<noteq> None then ((n, Some (StructuralError ''parsing error'')), w1)
       else ((n, None), w1))"
    using assms by (simp add: checkReader_Read_def)
  ultimately show ?thesis
    by (cases mdcErr) simp_all
qed

theorem checkReader_Read_cases_witness:
  "checkReader_Read plain_checkReader 4 [] = (([], Some io_EOF), [])
   \<and> checkReader_Read failing_checkReader 4 [] = (([], Some (Foreign ''mdc hash mismatch'')), [])
   \<and> checkReader_Read broken_checkReader 4 [1, 2]
       = (([], Some (StructuralError ''parsing error'')), [1, 2])
   \<and> checkReader_Read plain_checkReader 4 [1, 2] = (([1, 2], None), [])"
  using checkReader_Read_cases [of plain_checkReader "[]" 4 "[]" "Some io_EOF" "[]" None "[]"]
    checkReader_Read_cases [of failing_checkReader "[]" 4 "[]" "Some io_EOF" "[]"
      "Some (Foreign ''mdc hash mismatch'')" "[]"]
    checkReader_Read_cases [of broken_checkReader "[1, 2]" 4 "[]" "Some (Foreign ''unexpected EOF'')"
      "[1, 2]" None "[1, 2]"]
    checkReader_Read_cases [of plain_checkReader "[1, 2]" 4 "[1, 2]" None "[]" None "[]"]
  by (simp add: plain_checkReader_def failing_checkReader_def broken_checkReader_def
      bytes_Reader_Read_def)

text \<open>
  C2, as the code has it. In every sequence of \<open>Read\<close> calls, \<open>Close\<close> is called
  once for each \<open>Read\<close> of the body that returns \<open>io.EOF\<close>, right after it, and at no
  other time: the log of the calls is \<open>paired\<close>, and it holds as many \<open>Closed\<close> as
  end-of-stream results. Logging changes neither the results nor the final state.
\<close>

theorem Close_once_per_EOF:
  "fst (Reads (logged cr) bufs (w, [])) = fst (Reads cr bufs w)
   \<and> fst (snd (Reads (logged cr) bufs (w, []))) = snd (Reads cr bufs w)
   \<and> paired (snd (snd (Reads (logged cr) bufs (w, []))))
   \<and> count_list (snd (snd (Reads (logged cr) bufs (w, [])))) Closed
       = count_list (snd (snd (Reads (logged cr) bufs (w, [])))) (BodyRead (Some io_EOF))"
proof -
  obtain tr where "Reads (logged cr) bufs (w, []) = (fst (Reads cr bufs w), (snd (Reads cr bufs w), [] @ tr))"
    and "paired tr" using logged_Reads [of cr bufs w "[]"] by blast
  then show ?thesis by (simp add: paired_count)
qed

theorem Close_once_per_EOF_witness:
  "Reads plain_checkReader [1, 4, 4] [1, 2] = ([([1], None), ([2], None), ([], Some io_EOF)], [])
   \<and> snd (snd (Reads (logged plain_checkReader) [1, 4, 4] ([1, 2], [])))
       = [BodyRead None, BodyRead None, BodyRead (Some io_EOF), Closed]
   \<and> count_list (snd (snd (Reads (logged plain_checkReader) [1, 4, 4] ([1, 2], [])))) Closed = 1"
proof -
  have "snd (snd (Reads (logged plain_checkReader) [1, 4, 4] ([1, 2], [])))
       = [BodyRead None, BodyRead None, BodyRead (Some io_EOF), Closed]"
    by (simp add: checkReader_Read_def logged_def plain_checkReader_def bytes_Reader_Read_def)
  moreover have "Reads plain_checkReader [1, 4, 4] [1, 2]
       = ([([1], None), ([2], None), ([], Some io_EOF)], [])"
    by (simp add: checkReader_Read_def plain_checkReader_def bytes_Reader_Read_def)
  ultimately show ?thesis
    using Close_once_per_EOF [of plain_checkReader "[1, 4, 4]" "[1, 2]"]
    by simp
qed

text \<open>
  C2 as stated fails: nothing in \<open>checkReader\<close> remembers that the handle was closed.
  Three reads of a two-byte body that reports end-of-stream each time it is empty close
  the handle twice.
\<close>

theorem Close_twice:
  "Reads (logged plain_checkReader) [4, 4, 4] ([1, 2], []) =
     ([([1, 2], None), ([], Some io_EOF), ([], Some io_EOF)],
      ([], [BodyRead None, BodyRead (Some io_EOF), Closed, BodyRead (Some io_EOF), Closed]))
   \<and> count_list (snd (snd (Reads (logged plain_checkReader) [4, 4, 4] ([1, 2], [])))) Closed = 2"
  by (simp add: checkReader_Read_def logged_def plain_checkReader_def bytes_Reader_Read_def)

section \<open>Properties of the decryption with a session key\<close>

text \<open>
  C1. With a key ring given, when \<open>decryptStreamWithSessionKey\<close> succeeds and the body
  is read to its end without error, \<open>DecryptAndVerifyWithContext\<close> (and
  \<open>DecryptAndVerify\<close>, which is the same with no context) returns a message whose data
  are all the bytes read, together with whatever error \<open>verifyDetailsSignature\<close>
  produced: the plaintext is there whether that error is nil or not.
\<close>

theorem decrypt_keeps_plaintext:
  assumes "decryptStreamWithSessionKey D sk dataPacket (Some kr) ctx False = Inr md"
      and "ReadFrom D md = ((plaintext, None), md1)"
      and "verifyDetailsSignature D (processSignatureExpiration D md1 vtime) kr ctx = (err, md2)"
  shows "DecryptAndVerifyWithContext D sk dataPacket (Some kr) vtime ctx =
           (Some \<lparr>Data = plaintext,
                  pm_IsUTF8 = IsUTF8 (LiteralData md2),
                  pm_Filename = FileName (LiteralData md2),
                  pm_ModTime = ucast (Time (LiteralData md2))\<rparr>,
            err)
       \<and> (ctx = None \<longrightarrow>
            DecryptAndVerify D sk dataPacket (Some kr) vtime =
              DecryptAndVerifyWithContext D sk dataPacket (Some kr) vtime ctx)"
  using assms
  by (simp add: DecryptAndVerifyWithContext_def DecryptAndVerify_def
      decryptWithSessionKeyAndContext_def Let_def)

theorem decrypt_keeps_plaintext_witness:
  "DecryptAndVerify no_verifier_deps
       \<lparr>V6 = False, Key = replicate 32 0, Algo = constants_AES256\<rparr>
       [104, 101, 108, 108, 111] (Some ()) 0 =
     (Some \<lparr>Data = [104, 101, 108, 108, 111], pm_IsUTF8 = True, pm_Filename = ''note.txt'',
            pm_ModTime = 0\<rparr>,
      Some (Foreign ''Signature Verification Error: No matching signature''))"
  using decrypt_keeps_plaintext [of no_verifier_deps
      "\<lparr>V6 = False, Key = replicate 32 0, Algo = constants_AES256\<rparr>"
      "[104, 101, 108, 108, 111]" "()" None "plain_md [104, 101, 108, 108, 111]"
      "[104, 101, 108, 108, 111]" "(plain_md [104, 101, 108, 108, 111])\<lparr>UnverifiedBody := []\<rparr>"
      0 "Some (Foreign ''Signature Verification Error: No matching signature'')"
      "(plain_md [104, 101, 108, 108, 111])\<lparr>UnverifiedBody := []\<rparr>"]
  by (simp add: no_verifier_deps_def plain_md_def)

section \<open>Properties of the verification handle\<close>

lemma verifyingReader_unfold:
  "verifyingReader E vh sig c =
     (case openpgp_ReadMessage E sig (getEntities E (VerifyKeyRing vh))
             ((if VerificationContext vh \<noteq> None
               then (\<lambda>cfg. cfg\<lparr>KnownNotations := [(constants_SignatureContextName, True)]\<rparr>)
               else (\<lambda>cfg. cfg))
              (empty_Config\<lparr>Config_Time := Some (NewConstantClock (Unix (fst (clock vh c))))\<rparr>)) of
        Inl err \<Rightarrow> Inl (errors_Wrap err ''gopenpgp: initialize signature reader failed'')
      | Inr md \<Rightarrow>
          Inr \<lparr>details = md, internalReader = UnverifiedBody md,
                verifyKeyRing = VerifyKeyRing vh,
                verifyTime = Unix (fst (clock vh c)),
                disableVerifyTimeCheck = DisableVerifyTimeCheck vh,
                readAll = False,
                verificationContext = VerificationContext vh\<rparr>,
      snd (clock vh c))"
proof -
  obtain now c1 where clk: "clock vh c = (now, c1)"
    by (cases "clock vh c")
  show ?thesis
    by (cases "VerificationContext vh") (simp_all add: verifyingReader_def Let_def clk split: sum.splits)
qed

lemma verifyingDetachedReader_unfold:
  "verifyingDetachedReader E data sigr kr ctx dis config clk c =
     (case openpgp_VerifyDetachedSignatureReader E (getEntities E kr) data sigr
             ((if ctx \<noteq> None
               then (\<lambda>cfg. cfg\<lparr>KnownNotations := [(constants_SignatureContextName, True)]\<rparr>)
               else (\<lambda>cfg. cfg))
              ((case config of None \<Rightarrow> empty_Config | Some cfg \<Rightarrow> cfg)
                 \<lparr>Config_Time := Some (NewConstantClock (Unix (fst (clk c))))\<rparr>)) of
        Inl err \<Rightarrow> Inl (errors_Wrap err ''gopenpgp: verify signature reader failed'')
      | Inr md \<Rightarrow>
          Inr \<lparr>details = md,
                internalReader =
                  (if SignatureCandidates md \<noteq> [] \<and> SigType (hd (SignatureCandidates md)) = SigTypeText
                   then NewSanitizeReader E (UnverifiedBody md) else UnverifiedBody md),
                verifyKeyRing = kr,
                verifyTime = Unix (fst (clk c)),
                disableVerifyTimeCheck = dis,
                readAll = False,
                verificationContext = ctx\<rparr>,
      snd (clk c))"
proof -
  obtain now c1 where clk: "clk c = (now, c1)"
    by (cases "clk c")
  show ?thesis
    by (cases ctx) (simp_all add: verifyingDetachedReader_def Let_def clk hd_conv_nth split: sum.splits cong: conj_cong)
qed

lemmas small_defs =
  small_deps_def small_session_def small_md_def defaultVerifyHandle_def ticking_clock_def
  empty_Config_def SigTypeText_def SigTypeBinary_def

text \<open>
  C4, as the code has it. Each constructor of a reader, inline or detached, asks the
  clock exactly once (the time source is left as one call leaves it, also when the
  engine fails), stores the seconds of that answer in the reader as \<open>verifyTime\<close>, and
  hands the engine a config whose clock is the constant clock of that instant (an engine
  is only ever consulted on such a config), which answers the same instant at every
  call and does not touch the time source. The reader built depends on the clock only
  through that one answer. Reading and finalizing get the reader, which holds no clock:
  a whole detached verification (construction, reading to the end, \<open>VerifySignature\<close>)
  leaves the time source as one call of the clock leaves it.
\<close>

theorem verifyTime_sampled_once_per_reader:
  "snd (verifyingReader E vh sig c) = snd (clock vh c)
   \<and> snd (verifyingDetachedReader E data sigr kr ctx dis config clk c) = snd (clk c)
   \<and> (fst (verifyingReader E vh sig c) = Inr r \<longrightarrow> verifyTime r = Unix (fst (clock vh c)))
   \<and> (fst (verifyingDetachedReader E data sigr kr ctx dis config clk c) = Inr r'
        \<longrightarrow> verifyTime r' = Unix (fst (clk c)))
   \<and> (getEntities E' = getEntities E
        \<and> (\<forall>rd ents cfg. Config_Time cfg = Some (NewConstantClock (Unix (fst (clock vh c))))
              \<longrightarrow> openpgp_ReadMessage E' rd ents cfg = openpgp_ReadMessage E rd ents cfg)
        \<longrightarrow> verifyingReader E' vh sig c = verifyingReader E vh sig c)
   \<and> (getEntities E' = getEntities E \<and> NewSanitizeReader E' = NewSanitizeReader E
        \<and> (\<forall>ents d s cfg. Config_Time cfg = Some (NewConstantClock (Unix (fst (clk c))))
              \<longrightarrow> openpgp_VerifyDetachedSignatureReader E' ents d s cfg
                  = openpgp_VerifyDetachedSignatureReader E ents d s cfg)
        \<longrightarrow> verifyingDetachedReader E' data sigr kr ctx dis config clk c
            = verifyingDetachedReader E data sigr kr ctx dis config clk c)
   \<and> NewConstantClock t c2 = (time_Unix t 0, c2)
   \<and> (Unix (fst (clk' c')) = Unix (fst (clock vh c))
        \<longrightarrow> fst (verifyingReader E (vh\<lparr>clock := clk'\<rparr>) sig c') = fst (verifyingReader E vh sig c))
   \<and> (Unix (fst (clk' c')) = Unix (fst (clk c))
        \<longrightarrow> fst (verifyingDetachedReader E data sigr kr ctx dis config clk' c')
            = fst (verifyingDetachedReader E data sigr kr ctx dis config clk c))
   \<and> snd (verifyDetachedSignature E vh origText sigb c) = snd (clock vh c)"
proof (intro conjI impI)
  show "snd (verifyDetachedSignature E vh origText sigb c) = snd (clock vh c)"
    by (simp add: verifyDetachedSignature_def vh_verifyingDetachedReader_def
        verifyingDetachedReader_unfold split: sum.splits prod.splits option.splits)
  show "snd (verifyingReader E vh sig c) = snd (clock vh c)"
    by (simp add: verifyingReader_unfold)
  show "snd (verifyingDetachedReader E data sigr kr ctx dis config clk c) = snd (clk c)"
    by (simp add: verifyingDetachedReader_unfold)
  show "verifyTime r = Unix (fst (clock vh c))" if "fst (verifyingReader E vh sig c) = Inr r"
    using that by (auto simp: verifyingReader_unfold split: sum.splits)
  show "verifyTime r' = Unix (fst (clk c))"
    if "fst (verifyingDetachedReader E data sigr kr ctx dis config clk c) = Inr r'"
    using that by (auto simp: verifyingDetachedReader_unfold split: sum.splits)
  show "verifyingReader E' vh sig c = verifyingReader E vh sig c"
    if "getEntities E' = getEntities E
        \<and> (\<forall>rd ents cfg. Config_Time cfg = Some (NewConstantClock (Unix (fst (clock vh c))))
              \<longrightarrow> openpgp_ReadMessage E' rd ents cfg = openpgp_ReadMessage E rd ents cfg)"
    using that by (simp add: verifyingReader_unfold split: sum.splits)
  show "verifyingDetachedReader E' data sigr kr ctx dis config clk c
            = verifyingDetachedReader E data sigr kr ctx dis config clk c"
    if "getEntities E' = getEntities E \<and> NewSanitizeReader E' = NewSanitizeReader E
        \<and> (\<forall>ents d s cfg. Config_Time cfg = Some (NewConstantClock (Unix (fst (clk c))))
              \<longrightarrow> openpgp_VerifyDetachedSignatureReader E' ents d s cfg
                  = openpgp_VerifyDetachedSignatureReader E ents d s cfg)"
    using that by (simp add: verifyingDetachedReader_unfold split: sum.splits)
  show "NewConstantClock t c2 = (time_Unix t 0, c2)"
    by (simp add: NewConstantClock_def)
  show "fst (verifyingReader E (vh\<lparr>clock := clk'\<rparr>) sig c') = fst (verifyingReader E vh sig c)"
    if "Unix (fst (clk' c')) = Unix (fst (clock vh c))"
    using that by (simp add: verifyingReader_unfold split: sum.splits)
  show "fst (verifyingDetachedReader E data sigr kr ctx dis config clk' c')
            = fst (verifyingDetachedReader E data sigr kr ctx dis config clk c)"
    if "Unix (fst (clk' c')) = Unix (fst (clk c))"
    using that by (simp add: verifyingDetachedReader_unfold split: sum.splits)
qed

lemma strict_agrees:
  "getEntities strict_deps = getEntities small_deps"
  "NewSanitizeReader strict_deps = NewSanitizeReader small_deps"
  "\<forall>rd ents cfg. Config_Time cfg = Some (NewConstantClock (Unix (fst (clock small_session 1000))))
      \<longrightarrow> openpgp_ReadMessage strict_deps rd ents cfg = openpgp_ReadMessage small_deps rd ents cfg"
  "\<forall>ents d s cfg. Config_Time cfg = Some (NewConstantClock (Unix (fst (ticking_clock 1000))))
      \<longrightarrow> openpgp_VerifyDetachedSignatureReader strict_deps ents d s cfg
          = openpgp_VerifyDetachedSignatureReader small_deps ents d s cfg"
  by (simp_all add: strict_deps_def small_defs pinned_1000_def NewConstantClock_def)

lemma strict_refuses:
  "openpgp_ReadMessage strict_deps [1, 2, 3] () \<lparr>Config_Time = Some ticking_clock, KnownNotations = []\<rparr>
     = Inl (Foreign ''clock not pinned'')"
  by (simp add: strict_deps_def small_defs pinned_1000_def)

theorem verifyTime_sampled_once_per_reader_witness:
  "verifyingReader strict_deps small_session [1, 2, 3] 1000 =
     (Inr \<lparr>details = small_md [1, 2, 3] [], internalReader = [1, 2, 3],
           verifyKeyRing = Some (), verifyTime = 1000, disableVerifyTimeCheck = False,
           readAll = False, verificationContext = None\<rparr>, 1001)
   \<and> verifyingDetachedReader strict_deps [97, 10] [SigTypeBinary] (Some ()) None False None
       ticking_clock 1000 =
     (Inr \<lparr>details = small_md [97, 10] [SigTypeBinary], internalReader = [97, 10],
           verifyKeyRing = Some (), verifyTime = 1000, disableVerifyTimeCheck = False,
           readAll = False, verificationContext = None\<rparr>, 1001)
   \<and> fst (verifyingReader small_deps (small_session\<lparr>clock := NewConstantClock 1000\<rparr>) [1, 2, 3] 5)
       = fst (verifyingReader small_deps small_session [1, 2, 3] 1000)
   \<and> fst (verifyingDetachedReader small_deps [97, 10] [SigTypeBinary] (Some ()) None False None
            (NewConstantClock 1000) 5)
       = fst (verifyingDetachedReader small_deps [97, 10] [SigTypeBinary] (Some ()) None False None
            ticking_clock 1000)"
proof -
  let ?r = "\<lparr>details = small_md [1, 2, 3] [], internalReader = [1, 2, 3],
           verifyKeyRing = Some (), verifyTime = 1000, disableVerifyTimeCheck = False,
           readAll = False, verificationContext = None\<rparr>"
  let ?r' = "\<lparr>details = small_md [97, 10] [SigTypeBinary], internalReader = [97, 10],
           verifyKeyRing = Some (), verifyTime = 1000, disableVerifyTimeCheck = False,
           readAll = False, verificationContext = None\<rparr>"
  have a: "verifyingReader small_deps small_session [1, 2, 3] 1000 = (Inr ?r, 1001)"
    by (simp add: verifyingReader_def small_defs Let_def)
  have b: "verifyingDetachedReader small_deps [97, 10] [SigTypeBinary] (Some ()) None False None
       ticking_clock 1000 = (Inr ?r', 1001)"
    by (simp add: verifyingDetachedReader_def small_defs Let_def)
  have c: "Unix (fst (NewConstantClock 1000 (5::nat))) = Unix (fst (clock small_session 1000))"
    "Unix (fst (NewConstantClock 1000 (5::nat))) = Unix (fst (ticking_clock 1000))"
    by (simp_all add: NewConstantClock_def small_defs)
  show ?thesis
    using verifyTime_sampled_once_per_reader [of small_deps small_session "[1, 2, 3]" 1000
        "[97, 10]" "[SigTypeBinary]" "Some ()" None False None ticking_clock ?r ?r' strict_deps
        1000 5 "NewConstantClock 1000" 5]
      a b c strict_agrees
    by auto
qed

text \<open>
  C4 as stated fails: the clock is asked once for each reader, not once for the session.
  Two readers built one after the other from the same session, on a clock that moves,
  carry two different instants.
\<close>

theorem two_readers_two_instants:
  "verifyingReader small_deps small_session [1, 2, 3] 1000 =
     (Inr \<lparr>details = small_md [1, 2, 3] [], internalReader = [1, 2, 3],
           verifyKeyRing = Some (), verifyTime = 1000, disableVerifyTimeCheck = False,
           readAll = False, verificationContext = None\<rparr>, 1001)
   \<and> verifyingReader small_deps small_session [1, 2, 3] 1001 =
     (Inr \<lparr>details = small_md [1, 2, 3] [], internalReader = [1, 2, 3],
           verifyKeyRing = Some (), verifyTime = 1001, disableVerifyTimeCheck = False,
           readAll = False, verificationContext = None\<rparr>, 1002)"
  by (simp add: verifyingReader_def small_defs Let_def)

lemma model_detached_result:
  assumes "parse signature = Some sps"
  shows "verifyDetachedSignature (model_deps parse digest E) vh data signature c =
           (Inr (if sps = [] then NotSigned
                 else Resolved (map (candidate_outcome digest
                    \<lparr>details = \<lparr>UnverifiedBody = [],
                                LiteralData = \<lparr>IsUTF8 = False, FileName = [], Time = 0\<rparr>,
                                SignatureCandidates = map (\<lambda>sp. \<lparr>SigType = sp_type sp\<rparr>) sps,
                                engine_state = \<lparr>hashed = data, signatures = sps\<rparr>\<rparr>,
                      internalReader = [],
                      verifyKeyRing = VerifyKeyRing vh,
                      verifyTime = Unix (fst (clock vh c)),
                      disableVerifyTimeCheck = DisableVerifyTimeCheck vh,
                      readAll = True,
                      verificationContext = VerificationContext vh\<rparr>) sps)),
            snd (clock vh c))"
  using assms
  by (simp add: verifyDetachedSignature_def vh_verifyingDetachedReader_def
      verifyingDetachedReader_unfold model_deps_def model_VerifyDetachedSignatureReader_def
      model_read_to_end_def model_VerifySignature_def)

lemma candidate_outcome_text_Success:
  assumes "sp_type sp = SigTypeText"
      and "sp_digest sp = digest (crlf_to_lf (hashed (engine_state (details r))))"
      and "verifyKeyRing r = Some ks" and "sp_issuer sp \<in> set ks"
      and "disableVerifyTimeCheck r \<or>
             (sint (sp_created sp) \<le> sint (verifyTime r)
              \<and> (\<forall>e. sp_expires sp = Some e \<longrightarrow> sint (verifyTime r) < sint e))"
      and "\<forall>name. verificationContext r = Some name \<longrightarrow> name \<in> set (sp_notations sp)"
  shows "candidate_outcome digest r sp = Success"
  using assms
  by (auto simp: candidate_outcome_def Let_def split: option.splits)

lemma candidate_outcome_text_cong:
  assumes "sp_type sp = SigTypeText"
      and "crlf_to_lf (hashed (engine_state (details r1)))
             = crlf_to_lf (hashed (engine_state (details r2)))"
      and "verifyKeyRing r1 = verifyKeyRing r2" and "verifyTime r1 = verifyTime r2"
      and "disableVerifyTimeCheck r1 = disableVerifyTimeCheck r2"
      and "verificationContext r1 = verificationContext r2"
  shows "candidate_outcome digest r1 sp = candidate_outcome digest r2 sp"
  unfolding candidate_outcome_def Let_def
  by (simp only: assms if_True refl)

text \<open>
  C8, as the code has it. The reader that the detached path exposes is the sanitize
  filter over the unverified body exactly when the engine reports at least one signature
  candidate and the first one has the text type; otherwise it is the unverified body
  itself. With the engine and the reader's methods as the spec describes them, a
  signature of text type that was computed over an LF-only text, by a key of the key
  ring, inside its validity window and with the notation of the context if there is
  one, verifies on every data stream whose LF-only form is that text, the same text
  with CR LF line endings among them, whichever candidate it is; and the outcome of any
  candidate of text type is the same on two data streams that have the same LF-only
  form.
\<close>

theorem detached_text_signature:
  "(verifyingDetachedReader EA dataA sigr kr ctx dis config clk cA = (Inr r, cB) \<longrightarrow>
      internalReader r =
        (if SignatureCandidates (details r) \<noteq> []
            \<and> SigType (hd (SignatureCandidates (details r))) = SigTypeText
         then NewSanitizeReader EA (UnverifiedBody (details r))
         else UnverifiedBody (details r))
      \<and> (\<exists>cfg. openpgp_VerifyDetachedSignatureReader EA (getEntities EA kr) dataA sigr cfg
                 = Inr (details r)))
   \<and> (parse signature = Some sps \<and> i < length sps \<and> sp_type (sps ! i) = SigTypeText
        \<and> crlf_to_lf txt = txt \<and> sp_digest (sps ! i) = digest txt
        \<and> crlf_to_lf data = txt
        \<and> VerifyKeyRing vh = Some ks \<and> sp_issuer (sps ! i) \<in> set ks
        \<and> (DisableVerifyTimeCheck vh \<or>
             (sint (sp_created (sps ! i)) \<le> sint (Unix (fst (clock vh c)))
              \<and> (\<forall>e. sp_expires (sps ! i) = Some e \<longrightarrow> sint (Unix (fst (clock vh c))) < sint e)))
        \<and> (\<forall>name. VerificationContext vh = Some name \<longrightarrow> name \<in> set (sp_notations (sps ! i)))
      \<longrightarrow> (\<exists>os. verifyDetachedSignature (model_deps parse digest E) vh data signature c
                  = (Inr (Resolved os), snd (clock vh c))
               \<and> length os = length sps \<and> os ! i = Success))
   \<and> (parse signature = Some sps \<and> i < length sps \<and> sp_type (sps ! i) = SigTypeText
        \<and> crlf_to_lf dataB = crlf_to_lf dataC
      \<longrightarrow> (\<exists>os os'.
             verifyDetachedSignature (model_deps parse digest E) vh dataB signature c
               = (Inr (Resolved os), snd (clock vh c))
           \<and> verifyDetachedSignature (model_deps parse digest E) vh dataC signature c
               = (Inr (Resolved os'), snd (clock vh c))
           \<and> os ! i = os' ! i))"
proof (intro conjI impI)
  assume g: "parse signature = Some sps \<and> i < length sps \<and> sp_type (sps ! i) = SigTypeText
        \<and> crlf_to_lf dataB = crlf_to_lf dataC"
  let ?rd = "\<lambda>d. \<lparr>details = \<lparr>UnverifiedBody = [],
                                LiteralData = \<lparr>IsUTF8 = False, FileName = [], Time = 0\<rparr>,
                                SignatureCandidates = map (\<lambda>sp. \<lparr>SigType = sp_type sp\<rparr>) sps,
                                engine_state = \<lparr>hashed = d, signatures = sps\<rparr>\<rparr>,
                      internalReader = [],
                      verifyKeyRing = VerifyKeyRing vh,
                      verifyTime = Unix (fst (clock vh c)),
                      disableVerifyTimeCheck = DisableVerifyTimeCheck vh,
                      readAll = True,
                      verificationContext = VerificationContext vh\<rparr>"
  from g have ne: "sps \<noteq> []" by auto
  have runB: "verifyDetachedSignature (model_deps parse digest E) vh dataB signature c
                  = (Inr (Resolved (map (candidate_outcome digest (?rd dataB)) sps)),
                     snd (clock vh c))"
    using g ne by (simp add: model_detached_result)
  have runC: "verifyDetachedSignature (model_deps parse digest E) vh dataC signature c
                  = (Inr (Resolved (map (candidate_outcome digest (?rd dataC)) sps)),
                     snd (clock vh c))"
    using g ne by (simp add: model_detached_result)
  have "candidate_outcome digest (?rd dataB) (sps ! i)
          = candidate_outcome digest (?rd dataC) (sps ! i)"
    using g by (intro candidate_outcome_text_cong) simp_all
  with g have "map (candidate_outcome digest (?rd dataB)) sps ! i
          = map (candidate_outcome digest (?rd dataC)) sps ! i"
    by simp
  with runB runC show "\<exists>os os'.
             verifyDetachedSignature (model_deps parse digest E) vh dataB signature c
               = (Inr (Resolved os), snd (clock vh c))
           \<and> verifyDetachedSignature (model_deps parse digest E) vh dataC signature c
               = (Inr (Resolved os'), snd (clock vh c))
           \<and> os ! i = os' ! i"
    by blast
next
  assume a: "verifyingDetachedReader EA dataA sigr kr ctx dis config clk cA = (Inr r, cB)"
  show "internalReader r =
        (if SignatureCandidates (details r) \<noteq> []
            \<and> SigType (hd (SignatureCandidates (details r))) = SigTypeText
         then NewSanitizeReader EA (UnverifiedBody (details r))
         else UnverifiedBody (details r))"
    using a unfolding verifyingDetachedReader_unfold by (auto split: sum.splits)
  show "\<exists>cfg. openpgp_VerifyDetachedSignatureReader EA (getEntities EA kr) dataA sigr cfg
                 = Inr (details r)"
    using a unfolding verifyingDetachedReader_unfold by (auto split: sum.splits)
next
  assume h: "parse signature = Some sps \<and> i < length sps \<and> sp_type (sps ! i) = SigTypeText
        \<and> crlf_to_lf txt = txt \<and> sp_digest (sps ! i) = digest txt
        \<and> crlf_to_lf data = txt
        \<and> VerifyKeyRing vh = Some ks \<and> sp_issuer (sps ! i) \<in> set ks
        \<and> (DisableVerifyTimeCheck vh \<or>
             (sint (sp_created (sps ! i)) \<le> sint (Unix (fst (clock vh c)))
              \<and> (\<forall>e. sp_expires (sps ! i) = Some e \<longrightarrow> sint (Unix (fst (clock vh c))) < sint e)))
        \<and> (\<forall>name. VerificationContext vh = Some name \<longrightarrow> name \<in> set (sp_notations (sps ! i)))"
  let ?r = "\<lparr>details = \<lparr>UnverifiedBody = [],
                                LiteralData = \<lparr>IsUTF8 = False, FileName = [], Time = 0\<rparr>,
                                SignatureCandidates = map (\<lambda>sp. \<lparr>SigType = sp_type sp\<rparr>) sps,
                                engine_state = \<lparr>hashed = data, signatures = sps\<rparr>\<rparr>,
                      internalReader = [],
                      verifyKeyRing = VerifyKeyRing vh,
                      verifyTime = Unix (fst (clock vh c)),
                      disableVerifyTimeCheck = DisableVerifyTimeCheck vh,
                      readAll = True,
                      verificationContext = VerificationContext vh\<rparr>"
  let ?os = "map (candidate_outcome digest ?r) sps"
  from h have ne: "sps \<noteq> []" by auto
  have run: "verifyDetachedSignature (model_deps parse digest E) vh data signature c
                  = (Inr (Resolved ?os), snd (clock vh c))"
    using h ne by (simp add: model_detached_result)
  have "candidate_outcome digest ?r (sps ! i) = Success"
    using h by (intro candidate_outcome_text_Success [where ks = ks]) simp_all
  with h have "?os ! i = Success" by simp
  with run show "\<exists>os. verifyDetachedSignature (model_deps parse digest E) vh data signature c
                  = (Inr (Resolved os), snd (clock vh c))
               \<and> length os = length sps \<and> os ! i = Success"
    by (intro exI [of _ ?os]) simp
qed

theorem detached_text_signature_witness:
  "verifyingDetachedReader small_deps [97, 13, 10, 98] [SigTypeText, SigTypeBinary]
       (Some ()) None False None ticking_clock 1000 =
     (Inr \<lparr>details = small_md [97, 13, 10, 98] [SigTypeText, SigTypeBinary],
           internalReader = [97, 10, 98],
           verifyKeyRing = Some (), verifyTime = 1000, disableVerifyTimeCheck = False,
           readAll = False, verificationContext = None\<rparr>, 1001)
   \<and> [97, 10, 98] = NewSanitizeReader small_deps [97, 13, 10, 98]
   \<and> crlf_to_lf [97, 10, 98] = [97, 10, 98]
   \<and> crlf_to_lf [97, 13, 10, 98] = [97, 10, 98]
   \<and> (\<exists>os. verifyDetachedSignature (model_deps two_signatures (\<lambda>b. b) base_deps) key7_session
               [97, 13, 10, 98] [97, 10, 98] 1000 = (Inr (Resolved os), 1001)
            \<and> length os = length [SigTypeBinary, SigTypeText] \<and> os ! 1 = Success)
   \<and> (\<exists>os os'.
          verifyDetachedSignature (model_deps two_signatures (\<lambda>b. b) base_deps) key7_session
            [97, 13, 10, 98] [97, 10, 98] 1000 = (Inr (Resolved os), 1001)
        \<and> verifyDetachedSignature (model_deps two_signatures (\<lambda>b. b) base_deps) key7_session
            [97, 10, 98] [97, 10, 98] 1000 = (Inr (Resolved os'), 1001)
        \<and> os ! 1 = os' ! 1)"
proof -
  let ?r = "\<lparr>details = small_md [97, 13, 10, 98] [SigTypeText, SigTypeBinary],
           internalReader = [97, 10, 98],
           verifyKeyRing = Some (), verifyTime = 1000, disableVerifyTimeCheck = False,
           readAll = False, verificationContext = None\<rparr>"
  let ?sps = "[\<lparr>sp_type = SigTypeBinary, sp_issuer = 7, sp_created = 900, sp_expires = None,
             sp_notations = [], sp_digest = [97, 10, 98]\<rparr>,
           \<lparr>sp_type = SigTypeText, sp_issuer = 7, sp_created = 900, sp_expires = Some 2000,
             sp_notations = [], sp_digest = [97, 10, 98]\<rparr>]"
  have a: "verifyingDetachedReader small_deps [97, 13, 10, 98] [SigTypeText, SigTypeBinary]
       (Some ()) None False None ticking_clock 1000 = (Inr ?r, 1001)"
    by (simp add: verifyingDetachedReader_def small_defs Let_def)
  have p: "two_signatures [97, 10, 98] = Some ?sps"
    by (simp add: two_signatures_def)
  have k: "VerifyKeyRing key7_session = Some [7]" "VerificationContext key7_session = None"
    "\<not> DisableVerifyTimeCheck key7_session" "clock key7_session 1000 = (time_Unix 1000 0, 1001)"
    by (simp_all add: key7_session_def defaultVerifyHandle_def ticking_clock_def)
  have b: "(\<exists>os. verifyDetachedSignature (model_deps two_signatures (\<lambda>b. b) base_deps) key7_session
               [97, 13, 10, 98] [97, 10, 98] 1000 = (Inr (Resolved os), 1001)
            \<and> length os = length [SigTypeBinary, SigTypeText] \<and> os ! 1 = Success)
   \<and> (\<exists>os os'.
          verifyDetachedSignature (model_deps two_signatures (\<lambda>b. b) base_deps) key7_session
            [97, 13, 10, 98] [97, 10, 98] 1000 = (Inr (Resolved os), 1001)
        \<and> verifyDetachedSignature (model_deps two_signatures (\<lambda>b. b) base_deps) key7_session
            [97, 10, 98] [97, 10, 98] 1000 = (Inr (Resolved os'), 1001)
        \<and> os ! 1 = os' ! 1)"
    using detached_text_signature [of small_deps "[97, 13, 10, 98]"
        "[SigTypeText, SigTypeBinary]" "Some ()" None False None ticking_clock 1000
        "?r" 1001 two_signatures "[97, 10, 98]" "?sps" 1 "[97, 10, 98]" "\<lambda>b. b"
        "[97, 13, 10, 98]" key7_session "[7]" 1000 base_deps "[97, 13, 10, 98]" "[97, 10, 98]"]
      p k
    by simp
  show ?thesis
    using a b by (simp add: small_deps_def)
qed

text \<open>
  C8 as stated fails: only the first candidate is looked at. With a binary candidate
  first and a text candidate second, the reader exposed is the unverified body itself,
  CR LF included, not the filter over it.
\<close>

theorem text_candidate_not_first:
  "verifyingDetachedReader small_deps [97, 13, 10, 98] [SigTypeBinary, SigTypeText]
       (Some ()) None False None ticking_clock 1000 =
     (Inr \<lparr>details = small_md [97, 13, 10, 98] [SigTypeBinary, SigTypeText],
           internalReader = [97, 13, 10, 98],
           verifyKeyRing = Some (), verifyTime = 1000, disableVerifyTimeCheck = False,
           readAll = False, verificationContext = None\<rparr>, 1001)
   \<and> SigType (SignatureCandidates (small_md [97, 13, 10, 98] [SigTypeBinary, SigTypeText]) ! 1)
       = SigTypeText
   \<and> NewSanitizeReader small_deps [97, 13, 10, 98] = [97, 10, 98]"
  by (simp add: verifyingDetachedReader_def small_defs Let_def)

lemma small_verifyDetachedSignature:
  "verifyDetachedSignature small_deps small_session data [SigTypeText] 1000
     = (Inr ''no verifier'', 1001)"
  by (simp add: verifyDetachedSignature_def vh_verifyingDetachedReader_def
      verifyingDetachedReader_def small_defs Let_def)

lemma small_Decode:
  "clearsign_Decode small_deps input =
     Some \<lparr>Plaintext = input, Bytes = butlast input, ArmoredSignature_Body = [SigTypeText]\<rparr>"
  "io_ReadAll small_deps r = Inr r"
  "bytes_NewReader small_deps b = b"
  by (simp_all add: small_deps_def)

lemma verifyCleartext_accepted:
  assumes "clearsign_Decode E input = Some block"
      and "io_ReadAll E (ArmoredSignature_Body block) = Inr sigr"
      and "verifyDetachedSignature E vh (bytes_NewReader E (Bytes block)) sigr c = (Inr result, c1)"
  shows "verifyCleartext E vh input c =
           (if Plaintext block = [] then Panics ''slice bounds out of range''
            else Returns \<lparr>VerifyResult = result, cleartext = butlast (Plaintext block)\<rparr>, c1)"
  using assms by (simp add: verifyCleartext_def Let_def butlast_conv_take nat_diff_distrib')

lemma crlf_to_lf_line:
  "10 \<notin> set l \<Longrightarrow> crlf_to_lf (l @ 13 # 10 # rest) = l @ 10 # crlf_to_lf rest"
  by (induction l rule: crlf_to_lf.induct) auto

lemma crlf_to_lf_no_lf: "10 \<notin> set l \<Longrightarrow> crlf_to_lf l = l"
  by (induction l rule: crlf_to_lf.induct) auto

lemma crlf_to_lf_join:
  "\<forall>l\<in>set ls. 10 \<notin> set l \<Longrightarrow> crlf_to_lf (join_crlf ls) = join_lf ls"
  by (induction ls rule: join_crlf.induct) (simp_all add: crlf_to_lf_line crlf_to_lf_no_lf)

lemma Plaintext_join_lf:
  "ls \<noteq> [] \<Longrightarrow> concat (map (\<lambda>l. l @ [10]) ls) = join_lf ls @ [10]"
  by (induction ls rule: join_lf.induct) simp_all

lemma lines_deps_simps:
  "clearsign_Decode lines_deps
     = model_clearsign_Decode (\<lambda>input. Some (split_lines input, [SigTypeText]))"
  "io_ReadAll lines_deps r = Inr r"
  "bytes_NewReader lines_deps b = b"
  by (simp_all add: lines_deps_def small_deps_def)

lemma lines_verifyDetachedSignature:
  "verifyDetachedSignature lines_deps small_session data [SigTypeText] 1000
     = (Inr ''no verifier'', 1001)"
  by (simp add: verifyDetachedSignature_def vh_verifyingDetachedReader_def
      verifyingDetachedReader_def lines_deps_def small_defs Let_def)

lemma split_lines_example: "split_lines [97, 13, 10, 98, 13, 10] = [[97], [98]]"
  by (simp add: split_lines_def)

text \<open>
  C9, as the code has it. When the cleartext message is accepted (the container splits
  into at least one line of text and a signature, the signature is read, the detached
  verification returns a result), \<open>VerifyCleartext\<close> exposes the decoded plaintext, in
  which each line of the signed text is followed by LF, without its one last LF: the
  lines joined by LF. That is the signed text, whose lines are joined by CR LF, with
  each CR LF replaced by LF; it is the signed text itself when the text has one line.
\<close>

theorem cleartext_is_lines_joined:
  assumes "clearsign_Decode E = model_clearsign_Decode sections"
      and "sections input = Some (ls, sigbody)"
      and "ls \<noteq> []" and "\<forall>l\<in>set ls. 10 \<notin> set l"
      and "io_ReadAll E sigbody = Inr sigb"
      and "verifyDetachedSignature E vh (bytes_NewReader E (join_crlf ls)) sigb c = (Inr result, c1)"
  shows "VerifyCleartext E vh input c =
           (Returns \<lparr>VerifyResult = result, cleartext = join_lf ls\<rparr>, c1)
       \<and> clearsign_Decode E input =
           Some \<lparr>Plaintext = join_lf ls @ [10], Bytes = join_crlf ls,
                 ArmoredSignature_Body = sigbody\<rparr>
       \<and> crlf_to_lf (join_crlf ls) = join_lf ls
       \<and> (length ls = 1 \<longrightarrow> join_lf ls = join_crlf ls)"
proof -
  let ?b = "\<lparr>Plaintext = join_lf ls @ [10], Bytes = join_crlf ls,
                 ArmoredSignature_Body = sigbody\<rparr>"
  have d: "clearsign_Decode E input = Some ?b"
    using assms(1-3)
    by (simp add: model_clearsign_Decode_def clearsign_Block_of_def Plaintext_join_lf)
  have "verifyCleartext E vh input c =
          (Returns \<lparr>VerifyResult = result, cleartext = join_lf ls\<rparr>, c1)"
    using verifyCleartext_accepted [OF d, of sigb vh c result c1] assms(5,6) by simp
  moreover have "length ls = 1 \<longrightarrow> join_lf ls = join_crlf ls"
    by (cases ls rule: join_lf.cases) simp_all
  ultimately show ?thesis
    using d assms(4) by (simp add: VerifyCleartext_def crlf_to_lf_join)
qed

theorem cleartext_is_lines_joined_witness:
  "split_lines [97, 13, 10, 98, 13, 10] = [[97], [98]]
   \<and> VerifyCleartext lines_deps small_session [97, 13, 10, 98, 13, 10] 1000 =
       (Returns \<lparr>VerifyResult = ''no verifier'', cleartext = [97, 10, 98]\<rparr>, 1001)
   \<and> crlf_to_lf [97, 13, 10, 98] = [97, 10, 98]
   \<and> VerifyCleartext lines_deps small_session [104, 105, 10] 1000 =
       (Returns \<lparr>VerifyResult = ''no verifier'', cleartext = [104, 105]\<rparr>, 1001)
   \<and> clearsign_Decode lines_deps [104, 105, 10] =
       Some \<lparr>Plaintext = [104, 105, 10], Bytes = [104, 105],
             ArmoredSignature_Body = [SigTypeText]\<rparr>"
proof -
  have s2: "split_lines [104, 105, 10] = [[104, 105]]"
    by (simp add: split_lines_def)
  show ?thesis
    using cleartext_is_lines_joined [of lines_deps
        "\<lambda>input. Some (split_lines input, [SigTypeText])" "[97, 13, 10, 98, 13, 10]"
        "[[97], [98]]" "[SigTypeText]" "[SigTypeText]" small_session 1000 "''no verifier''" 1001]
      cleartext_is_lines_joined [of lines_deps
        "\<lambda>input. Some (split_lines input, [SigTypeText])" "[104, 105, 10]"
        "[[104, 105]]" "[SigTypeText]" "[SigTypeText]" small_session 1000 "''no verifier''" 1001]
      lines_verifyDetachedSignature [of "[97, 13, 10, 98]"]
      lines_verifyDetachedSignature [of "[104, 105]"]
      split_lines_example s2
    by (simp add: lines_deps_simps)
qed

text \<open>
  C9 as stated fails on a text of more than one line: more than one terminator goes. For
  the text section \<open>a CR LF b CR LF\<close> the signed text is \<open>a CR LF b\<close> and the plaintext
  exposed is \<open>a LF b\<close>, which is neither the signed text nor the text section without
  one terminator.
\<close>

theorem cleartext_not_signed_bytes:
  "VerifyCleartext lines_deps small_session [97, 13, 10, 98, 13, 10] 1000 =
     (Returns \<lparr>VerifyResult = ''no verifier'', cleartext = [97, 10, 98]\<rparr>, 1001)
   \<and> clearsign_Decode lines_deps [97, 13, 10, 98, 13, 10] =
       Some \<lparr>Plaintext = [97, 10, 98, 10], Bytes = [97, 13, 10, 98],
             ArmoredSignature_Body = [SigTypeText]\<rparr>
   \<and> [97, 10, 98] \<noteq> [97, 13, 10, 98 :: byte]
   \<and> [97, 10, 98] \<noteq> butlast [97, 13, 10, 98 :: byte]
   \<and> [97, 10, 98] @ [13, 10] \<noteq> [97, 13, 10, 98, 13, 10 :: byte]
   \<and> [97, 10, 98] @ [10] \<noteq> [97, 13, 10, 98, 13, 10 :: byte]"
proof -
  have d: "clearsign_Decode lines_deps [97, 13, 10, 98, 13, 10] =
       Some \<lparr>Plaintext = [97, 10, 98, 10], Bytes = [97, 13, 10, 98],
             ArmoredSignature_Body = [SigTypeText]\<rparr>"
    by (simp add: lines_deps_simps model_clearsign_Decode_def clearsign_Block_of_def
        split_lines_example)
  have "verifyCleartext lines_deps small_session [97, 13, 10, 98, 13, 10] 1000 =
     (Returns \<lparr>VerifyResult = ''no verifier'', cleartext = [97, 10, 98]\<rparr>, 1001)"
    using verifyCleartext_accepted [OF d, of "[SigTypeText]" small_session 1000 "''no verifier''" 1001]
      lines_verifyDetachedSignature [of "[97, 13, 10, 98]"]
    by (simp add: lines_deps_simps)
  with d show ?thesis
    by (simp add: VerifyCleartext_def)
qed

text \<open>
  C10. For an accepted cleartext message, the upper bound of the slice,
  \<open>len(block.Plaintext) - 1\<close>, is negative exactly when the decoded plaintext is empty;
  \<open>verifyCleartext\<close> then panics, and otherwise it returns the plaintext without its
  last byte, whatever that byte is.
\<close>

theorem cleartext_slice_needs_nonempty:
  assumes "clearsign_Decode E input = Some block"
      and "io_ReadAll E (ArmoredSignature_Body block) = Inr sigr"
      and "verifyDetachedSignature E vh (bytes_NewReader E (Bytes block)) sigr c = (Inr result, c1)"
  shows "(int (length (Plaintext block)) - 1 < 0 \<longleftrightarrow> Plaintext block = [])
       \<and> (Plaintext block = [] \<longrightarrow>
            verifyCleartext E vh input c = (Panics ''slice bounds out of range'', c1))
       \<and> (Plaintext block \<noteq> [] \<longrightarrow>
            verifyCleartext E vh input c =
              (Returns \<lparr>VerifyResult = result, cleartext = butlast (Plaintext block)\<rparr>, c1)
            \<and> length (butlast (Plaintext block)) + 1 = length (Plaintext block))"
  using verifyCleartext_accepted [OF assms]
  by (cases "Plaintext block") simp_all

theorem cleartext_slice_needs_nonempty_witness:
  "verifyCleartext small_deps small_session [] 1000 = (Panics ''slice bounds out of range'', 1001)
   \<and> verifyCleartext small_deps small_session [104] 1000 =
       (Returns \<lparr>VerifyResult = ''no verifier'', cleartext = []\<rparr>, 1001)"
  using cleartext_slice_needs_nonempty [of small_deps "[]"
      "\<lparr>Plaintext = [], Bytes = butlast [], ArmoredSignature_Body = [SigTypeText]\<rparr>"
      "[SigTypeText]" small_session 1000 "''no verifier''" 1001]
    cleartext_slice_needs_nonempty [of small_deps "[104]"
      "\<lparr>Plaintext = [104], Bytes = butlast [104], ArmoredSignature_Body = [SigTypeText]\<rparr>"
      "[SigTypeText]" small_session 1000 "''no verifier''" 1001]
    small_verifyDetachedSignature [of "butlast []"]
    small_verifyDetachedSignature [of "butlast [104]"]
  by (simp add: small_Decode)

end
